theory Spec2Isabelle
  imports Complex_Main "HOL-Library.Multiset"
begin

section \<open>Python values, dictionaries and exceptions\<close>

text \<open>
  The client works on the dictionaries decoded from the API's JSON responses. A value is
  \<open>None\<close>, a boolean, a number, a string or a nested dictionary. Python's \<open>int\<close> and
  \<open>float\<close> are both read as real numbers: arithmetic is exact, so rounding of floats is
  outside the model. A dictionary is an association list in insertion order, read through
  its first binding of a key.
\<close>

datatype jval =
    JNull
  | JBool bool
  | JNum real
  | JStr string
  | JObj "(string \<times> jval) list"

type_synonym dict = "(string \<times> jval) list"

datatype error =
    KeyError string
  | AttributeError
  | TypeError
  | ZeroDivisionError
  | NotConvertible jval
  | MergeError
  | ExternalError string

text \<open>Sequencing of fallible steps: the first exception raised is the result.\<close>

fun ebind :: "'e + 'a \<Rightarrow> ('a \<Rightarrow> 'e + 'b) \<Rightarrow> 'e + 'b" where
  "ebind (Inl e) f = Inl e"
| "ebind (Inr x) f = f x"

text \<open>\<^verbatim>\<open>d.get(k)\<close>: the value, or \<open>None\<close> when the key is absent.\<close>

definition dict_get :: "dict \<Rightarrow> string \<Rightarrow> jval" where
  "dict_get d k = (case map_of d k of None \<Rightarrow> JNull | Some v \<Rightarrow> v)"

text \<open>\<^verbatim>\<open>d.get(k, default)\<close>.\<close>

definition dict_get_default :: "dict \<Rightarrow> string \<Rightarrow> jval \<Rightarrow> jval" where
  "dict_get_default d k dflt = (case map_of d k of None \<Rightarrow> dflt | Some v \<Rightarrow> v)"

text \<open>\<^verbatim>\<open>d[k]\<close>: raises \<open>KeyError\<close> when the key is absent.\<close>

definition dict_item :: "dict \<Rightarrow> string \<Rightarrow> error + jval" where
  "dict_item d k = (case map_of d k of None \<Rightarrow> Inl (KeyError k) | Some v \<Rightarrow> Inr v)"

text \<open>\<^verbatim>\<open>d[k] = v\<close>: overwrites in place, or appends a new key at the end.\<close>

primrec dict_set :: "string \<Rightarrow> jval \<Rightarrow> dict \<Rightarrow> dict" where
  "dict_set k v [] = [(k, v)]"
| "dict_set k v (p # ps) = (if fst p = k then (k, v) # ps else p # dict_set k v ps)"

text \<open>\<^verbatim>\<open>k in d\<close>.\<close>

definition dict_has :: "dict \<Rightarrow> string \<Rightarrow> bool" where
  "dict_has d k = (map_of d k \<noteq> None)"

text \<open>Truth value of a Python object, as tested by \<^verbatim>\<open>if x\<close> and \<^verbatim>\<open>not x\<close>.\<close>

fun truthy :: "jval \<Rightarrow> bool" where
  "truthy JNull = False"
| "truthy (JBool b) = b"
| "truthy (JNum r) = (r \<noteq> 0)"
| "truthy (JStr s) = (s \<noteq> [])"
| "truthy (JObj d) = (d \<noteq> [])"

text \<open>The number a value stands for in arithmetic; \<open>True\<close> and \<open>False\<close> count as 1 and 0.\<close>

fun as_num :: "jval \<Rightarrow> real option" where
  "as_num (JNum r) = Some r"
| "as_num (JBool b) = Some (if b then 1 else 0)"
| "as_num v = None"

text \<open>
  An operand of \<open>*\<close>, \<open>+\<close>, \<open>-\<close>, \<open>/\<close>. Every chain of these operators in \<open>convert_unit\<close>
  ends in a subtraction and a division, which raise \<open>TypeError\<close> on anything that is not a
  number.
\<close>

definition num_operand :: "jval \<Rightarrow> error + real" where
  "num_operand v = (case as_num v of None \<Rightarrow> Inl TypeError | Some r \<Rightarrow> Inr r)"

text \<open>\<^verbatim>\<open>a == b\<close>: numbers compare by value (\<open>True == 1\<close>), everything else structurally.\<close>

definition py_eq :: "jval \<Rightarrow> jval \<Rightarrow> bool" where
  "py_eq a b =
     (case (as_num a, as_num b) of
        (Some x, Some y) \<Rightarrow> x = y
      | (None, None) \<Rightarrow> a = b
      | _ \<Rightarrow> False)"

section \<open>External collaborators\<close>

text \<open>
  The methods inherited from \<open>Client\<close> and the pandas date parser are supplied from
  outside; each either returns or raises.
\<close>

record client =
  search :: "string \<Rightarrow> jval \<Rightarrow> error + dict list"
  lookup :: "string \<Rightarrow> jval \<Rightarrow> error + dict"
  get_data_series :: "dict \<Rightarrow> error + dict list"
  rank_series_by_source :: "dict list \<Rightarrow> error + dict list"
  super_get_data_points :: "dict \<Rightarrow> error + dict list"
  to_datetime :: "jval \<Rightarrow> error + jval"

section \<open>Unit conversion\<close>

text \<open>
  \<^verbatim>\<open>self.lookup('units', unit_id).get('baseConvFactor')\<close> followed by the test
  \<^verbatim>\<open>if not factor.get('factor'): raise Exception('unit_id {} is not convertible')\<close>.
  A \<open>baseConvFactor\<close> that is missing or not a dictionary has no \<open>get\<close>.
\<close>

definition convert_factor :: "client \<Rightarrow> jval \<Rightarrow> error + dict" where
  "convert_factor cl unit_id =
     ebind (lookup cl ''units'' unit_id) (\<lambda>unit.
       case dict_get unit ''baseConvFactor'' of
         JObj f \<Rightarrow> if \<not> truthy (dict_get f ''factor'') then Inl (NotConvertible unit_id)
                   else Inr f
       | _ \<Rightarrow> Inl AttributeError)"

text \<open>
  \<^verbatim>\<open>value_in_base_unit = (point['value'] * from.get('factor')) + from.get('offset', 0)\<close>
  \<^verbatim>\<open>point['value'] = float(value_in_base_unit - to.get('offset', 0)) / to.get('factor')\<close>
\<close>

definition convert_value :: "jval \<Rightarrow> dict \<Rightarrow> dict \<Rightarrow> error + jval" where
  "convert_value v from_convert_factor to_convert_factor =
     ebind (num_operand v) (\<lambda>x.
     ebind (num_operand (dict_get from_convert_factor ''factor'')) (\<lambda>ff.
     ebind (num_operand (dict_get_default from_convert_factor ''offset'' (JNum 0))) (\<lambda>fo.
     ebind (num_operand (dict_get_default to_convert_factor ''offset'' (JNum 0))) (\<lambda>to.
     ebind (num_operand (dict_get to_convert_factor ''factor'')) (\<lambda>tf.
       if tf = 0 then Inl ZeroDivisionError
       else Inr (JNum (((x * ff + fo) - to) / tf)))))))"

definition convert_unit :: "client \<Rightarrow> dict \<Rightarrow> jval \<Rightarrow> error + dict" where
  "convert_unit cl point target_unit_id =
     (if dict_get point ''unit_id'' = JNull \<or> py_eq (dict_get point ''unit_id'') target_unit_id
      then Inr point
      else
        ebind (convert_factor cl (dict_get point ''unit_id'')) (\<lambda>from_convert_factor.
        ebind (convert_factor cl target_unit_id) (\<lambda>to_convert_factor.
          if dict_get point ''value'' \<noteq> JNull then
            ebind (convert_value (dict_get point ''value'') from_convert_factor to_convert_factor)
              (\<lambda>v. Inr (dict_set ''unit_id'' target_unit_id (dict_set ''value'' v point)))
          else Inr (dict_set ''unit_id'' target_unit_id point))))"

section \<open>Finding data series by entity names\<close>

record cfg =
  MAX_RESULT_COMBINATION_DEPTH :: int

definition default_cfg :: cfg where
  "default_cfg = \<lparr>MAX_RESULT_COMBINATION_DEPTH = 3\<rparr>"

text \<open>\<^verbatim>\<open>xs[:n]\<close>; a negative bound counts from the end.\<close>

definition py_slice_to :: "int \<Rightarrow> 'a list \<Rightarrow> 'a list" where
  "py_slice_to n xs =
     (if 0 \<le> n then take (nat n) xs else take (nat (int (length xs) + n)) xs)"

text \<open>
  \<^verbatim>\<open>itertools.product(*pools)\<close>, as the standard library documents it:
  \<^verbatim>\<open>result = [[]]\<close>, then for each pool
  \<^verbatim>\<open>result = [x + [y] for x in result for y in pool]\<close>.
\<close>

definition product_step :: "'a list list \<Rightarrow> 'a list \<Rightarrow> 'a list list" where
  "product_step result pool = concat (map (\<lambda>x. map (\<lambda>y. x @ [y]) pool) result)"

definition itertools_product :: "'a list list \<Rightarrow> 'a list list" where
  "itertools_product pools = foldl product_step [[]] pools"

text \<open>A list comprehension whose body may raise.\<close>

fun emap :: "('a \<Rightarrow> 'e + 'b) \<Rightarrow> 'a list \<Rightarrow> 'e + 'b list" where
  "emap f [] = Inr []"
| "emap f (x # xs) = ebind (f x) (\<lambda>y. ebind (emap f xs) (\<lambda>ys. Inr (y # ys)))"

text \<open>\<^verbatim>\<open>dict(pairs)\<close>: later bindings of a key overwrite earlier ones.\<close>

definition dict_of_pairs :: "(string \<times> jval) list \<Rightarrow> dict" where
  "dict_of_pairs ps = foldl (\<lambda>d (k, v). dict_set k v d) [] ps"

text \<open>
  One of the four blocks
  \<^verbatim>\<open>if kwargs.get(arg): search_results.append(self.search(etype, kwargs[arg])[:D]); keys.append(key)\<close>.
\<close>

definition search_dimension ::
  "client \<Rightarrow> cfg \<Rightarrow> dict \<Rightarrow> string \<Rightarrow> string \<Rightarrow> string
     \<Rightarrow> dict list list \<times> string list \<Rightarrow> error + dict list list \<times> string list" where
  "search_dimension cl c kwargs arg etype key acc =
     (case acc of (search_results, keys) \<Rightarrow>
        if truthy (dict_get kwargs arg) then
          ebind (search cl etype (dict_get kwargs arg)) (\<lambda>found.
            Inr (search_results @ [py_slice_to (MAX_RESULT_COMBINATION_DEPTH c) found],
                 keys @ [key]))
        else Inr (search_results, keys))"

definition search_all ::
  "client \<Rightarrow> cfg \<Rightarrow> dict \<Rightarrow> error + dict list list \<times> string list" where
  "search_all cl c kwargs =
     ebind (search_dimension cl c kwargs ''item'' ''items'' ''item_id'' ([], [])) (\<lambda>acc.
     ebind (search_dimension cl c kwargs ''metric'' ''metrics'' ''metric_id'' acc) (\<lambda>acc.
     ebind (search_dimension cl c kwargs ''region'' ''regions'' ''region_id'' acc) (\<lambda>acc.
       search_dimension cl c kwargs ''partner_region'' ''regions'' ''partner_region_id'' acc)))"

text \<open>\<^verbatim>\<open>entities = dict(list(zip(keys, [entity['id'] for entity in comb])))\<close>\<close>

definition entities_of :: "string list \<Rightarrow> dict list \<Rightarrow> error + dict" where
  "entities_of keys comb =
     ebind (emap (\<lambda>entity. dict_item entity ''id'') comb) (\<lambda>ids.
       Inr (dict_of_pairs (zip keys ids)))"

text \<open>The time range of the request, written onto a data series when it is given.\<close>

definition stamp_dates :: "dict \<Rightarrow> dict \<Rightarrow> dict" where
  "stamp_dates kwargs data_series =
     (let ds1 = (if truthy (dict_get kwargs ''start_date'')
                 then dict_set ''start_date'' (dict_get kwargs ''start_date'') data_series
                 else data_series)
      in if truthy (dict_get kwargs ''end_date'')
         then dict_set ''end_date'' (dict_get kwargs ''end_date'') ds1
         else ds1)"

text \<open>The body of \<^verbatim>\<open>for comb in itertools.product(*search_results)\<close>.\<close>

definition series_of_comb :: "client \<Rightarrow> dict \<Rightarrow> string list \<Rightarrow> dict list \<Rightarrow> error + dict list" where
  "series_of_comb cl kwargs keys comb =
     ebind (entities_of keys comb) (\<lambda>entities.
     ebind (get_data_series cl entities) (\<lambda>data_series_list.
       Inr (map (stamp_dates kwargs) data_series_list)))"

fun sweep ::
  "client \<Rightarrow> dict \<Rightarrow> string list \<Rightarrow> dict list list \<Rightarrow> dict list \<Rightarrow> error + dict list" where
  "sweep cl kwargs keys [] all_data_series = Inr all_data_series"
| "sweep cl kwargs keys (comb # combs) all_data_series =
     ebind (series_of_comb cl kwargs keys comb) (\<lambda>data_series_list.
       sweep cl kwargs keys combs (all_data_series @ data_series_list))"

text \<open>
  The generator runs the whole sweep before its first \<open>yield\<close>, so an exception there
  reaches the caller before any series does; the result is the exception or the full
  sequence of yielded series. The ranking is a collaborator: it answers with the ranked
  sequence, or raises.
\<close>

definition find_data_series :: "client \<Rightarrow> cfg \<Rightarrow> dict \<Rightarrow> error + dict list" where
  "find_data_series cl c kwargs =
     ebind (search_all cl c kwargs) (\<lambda>(search_results, keys).
     ebind (sweep cl kwargs keys (itertools_product search_results) []) (\<lambda>all_data_series.
       rank_series_by_source cl all_data_series))"

text \<open>
  The resolver as the specification words it, for comparison: a combination whose series
  lookup fails contributes no series and the sweep goes on. This is the code above run
  with a series lookup that answers the empty list where the real one raises.
\<close>

definition absorb_lookup_failure :: "client \<Rightarrow> client" where
  "absorb_lookup_failure cl =
     cl\<lparr>get_data_series :=
          (\<lambda>entities. case get_data_series cl entities of Inl e \<Rightarrow> Inr [] | Inr l \<Rightarrow> Inr l)\<rparr>"

definition find_data_series_tolerant :: "client \<Rightarrow> cfg \<Rightarrow> dict \<Rightarrow> error + dict list" where
  "find_data_series_tolerant cl c kwargs = find_data_series (absorb_lookup_failure cl) c kwargs"

section \<open>The accumulated table\<close>

text \<open>
  Modelled from the spec: the tabular library is an external collaborator, used as an
  accumulation sink. A table has named columns and rows; a row binds every column of its
  table to a value, null where the data has none. Only the operations that
  \<open>add_points_to_df\<close> calls are modelled. Cells are compared as values; what the library
  does with a cell it cannot hash (a nested dictionary) is outside the model.
\<close>

record data_frame =
  columns :: "string list"
  rows :: "dict list"

definition empty_frame :: data_frame where
  "empty_frame = \<lparr>columns = [], rows = []\<rparr>"

text \<open>Modelled from the spec: \<^verbatim>\<open>df.empty\<close>, a table without rows or without columns.\<close>

definition is_empty :: "data_frame \<Rightarrow> bool" where
  "is_empty df = (columns df = [] \<or> rows df = [])"

text \<open>
  Modelled from the spec: \<^verbatim>\<open>pandas.DataFrame(data=data_points)\<close>, one row for each
  observation; the columns are the keys of the observations in order of first appearance,
  and an observation without a key has null there.
\<close>

definition append_new :: "string list \<Rightarrow> string \<Rightarrow> string list" where
  "append_new cols k = (if k \<in> set cols then cols else cols @ [k])"

definition DataFrame :: "dict list \<Rightarrow> data_frame" where
  "DataFrame data =
     (let cols = foldl append_new [] (concat (map (map fst) data))
      in \<lparr>columns = cols, rows = map (\<lambda>p. map (\<lambda>c. (c, dict_get p c)) cols) data\<rparr>)"

text \<open>Modelled from the spec: \<^verbatim>\<open>tmp[col] = value\<close>, the same value in every row.\<close>

definition set_column :: "string \<Rightarrow> jval \<Rightarrow> data_frame \<Rightarrow> data_frame" where
  "set_column col v df =
     \<lparr>columns = append_new (columns df) col, rows = map (dict_set col v) (rows df)\<rparr>"

text \<open>
  \<^verbatim>\<open>if col in tmp.columns: tmp.col = pandas.to_datetime(tmp.col)\<close>; the parser raises on
  a value it cannot read.
\<close>

definition parse_dates :: "client \<Rightarrow> string \<Rightarrow> data_frame \<Rightarrow> error + data_frame" where
  "parse_dates cl col df =
     (if col \<in> set (columns df) then
        ebind (emap (\<lambda>r. ebind (to_datetime cl (dict_get r col)) (\<lambda>d. Inr (dict_set col d r)))
                 (rows df))
          (\<lambda>rs. Inr (df\<lparr>rows := rs\<rparr>))
      else Inr df)"

text \<open>
  Modelled from the spec: \<^verbatim>\<open>left.merge(right, how='outer')\<close>, an outer join on the
  columns the two tables share. Every pair of a left and a right row that agree on the
  shared columns gives one row; a row without a partner is kept, with null in the columns
  of the other table. Null agrees with null. Without a shared column the merge raises. The
  order of the rows is left rows first, which is not the library's order: results about
  the merged table are stated up to the order of its rows.
\<close>

definition shared_columns :: "data_frame \<Rightarrow> data_frame \<Rightarrow> string list" where
  "shared_columns left right = filter (\<lambda>c. c \<in> set (columns right)) (columns left)"

definition merged_columns :: "data_frame \<Rightarrow> data_frame \<Rightarrow> string list" where
  "merged_columns left right =
     columns left @ filter (\<lambda>c. c \<notin> set (columns left)) (columns right)"

definition join_key :: "data_frame \<Rightarrow> data_frame \<Rightarrow> dict \<Rightarrow> jval list" where
  "join_key left right r = map (dict_get r) (shared_columns left right)"

text \<open>The rows a left row gives: one for each partner, or itself filled with null.\<close>

definition joined_rows :: "data_frame \<Rightarrow> data_frame \<Rightarrow> dict \<Rightarrow> dict list" where
  "joined_rows left right l =
     (let partners = filter (\<lambda>r. join_key left right r = join_key left right l) (rows right)
      in if partners = [] then
           [map (\<lambda>c. (c, if c \<in> set (columns left) then dict_get l c else JNull))
              (merged_columns left right)]
         else
           map (\<lambda>r. map (\<lambda>c. (c, if c \<in> set (columns left) then dict_get l c
                                  else dict_get r c))
                      (merged_columns left right))
             partners)"

text \<open>The right rows without a partner, filled with null.\<close>

definition unmatched_rows :: "data_frame \<Rightarrow> data_frame \<Rightarrow> dict list" where
  "unmatched_rows left right =
     map (\<lambda>r. map (\<lambda>c. (c, if c \<in> set (columns right) then dict_get r c else JNull))
                (merged_columns left right))
       (filter (\<lambda>r. \<not> list_ex (\<lambda>l. join_key left right l = join_key left right r) (rows left))
          (rows right))"

definition merge_outer :: "data_frame \<Rightarrow> data_frame \<Rightarrow> error + data_frame" where
  "merge_outer left right =
     (if shared_columns left right = [] then Inl MergeError
      else Inr \<lparr>columns = merged_columns left right,
                rows = concat (map (joined_rows left right) (rows left))
                       @ unmatched_rows left right\<rparr>)"

definition DATA_POINTS_UNIQUE_COLS :: "string list" where
  "DATA_POINTS_UNIQUE_COLS =
     [''item_id'', ''metric_id'', ''region_id'', ''partner_region_id'',
      ''frequency_id'', ''source_id'', ''reporting_date'', ''start_date'', ''end_date'']"

text \<open>
  The batch as \<open>add_points_to_df\<close> prepares it: \<open>None\<close> when the batch makes an empty
  table (the method returns at once), otherwise the table with the \<open>source_id\<close> of the
  series in every row and the three date columns parsed.
\<close>

definition prepare_batch :: "client \<Rightarrow> dict \<Rightarrow> dict list \<Rightarrow> error + data_frame option" where
  "prepare_batch cl data_series data_points =
     (let tmp = DataFrame data_points in
      if is_empty tmp then Inr None
      else
        ebind (dict_item data_series ''source_id'') (\<lambda>source_id.
        ebind (parse_dates cl ''end_date'' (set_column ''source_id'' source_id tmp)) (\<lambda>tmp.
        ebind (parse_dates cl ''start_date'' tmp) (\<lambda>tmp.
        ebind (parse_dates cl ''reporting_date'' tmp) (\<lambda>tmp.
          Inr (Some tmp))))))"

text \<open>
  The last step of \<open>add_points_to_df\<close>. \<^verbatim>\<open>set_index\<close> returns a new table, which the
  code drops, so an empty accumulated table is replaced by the batch as it is.
\<close>

definition fold_batch :: "data_frame \<Rightarrow> data_frame \<Rightarrow> error + data_frame" where
  "fold_batch df tmp = (if is_empty df then Inr tmp else merge_outer df tmp)"

section \<open>The client's state\<close>

text \<open>
  The fields that \<open>get_df\<close> and \<open>add_points_to_df\<close> read and write: the queue of series
  added but not yet loaded, and the accumulated table.
\<close>

record gro_client =
  data_series_queue :: "dict list"
  data_frame :: data_frame

text \<open>
  The table \<open>add_points_to_df\<close> leaves in \<open>self._data_frame\<close>: untouched when the batch
  is empty, otherwise the batch folded in.
\<close>

definition folded_frame ::
  "client \<Rightarrow> data_frame \<Rightarrow> dict \<Rightarrow> dict list \<Rightarrow> error + data_frame" where
  "folded_frame cl df data_series data_points =
     ebind (prepare_batch cl data_series data_points) (\<lambda>prepared.
       case prepared of
         None \<Rightarrow> Inr df
       | Some tmp \<Rightarrow> fold_batch df tmp)"

definition add_points_to_df ::
  "client \<Rightarrow> gro_client \<Rightarrow> dict \<Rightarrow> dict list \<Rightarrow> error + gro_client" where
  "add_points_to_df cl self data_series data_points =
     ebind (folded_frame cl (data_frame self) data_series data_points) (\<lambda>df.
       Inr (self\<lparr>data_frame := df\<rparr>))"

text \<open>
  \<open>GroClient.get_data_points\<close>: the inherited fetch, then each observation converted when
  the selection names a unit.
\<close>

definition get_data_points :: "client \<Rightarrow> dict \<Rightarrow> error + dict list" where
  "get_data_points cl selections =
     ebind (super_get_data_points cl selections) (\<lambda>data_points.
       if dict_has selections ''unit_id''
       then emap (\<lambda>point. convert_unit cl point (dict_get selections ''unit_id'')) data_points
       else Inr data_points)"

text \<open>\<^verbatim>\<open>if show_revisions: data_series['show_revisions'] = True\<close>\<close>

definition with_revisions :: "bool \<Rightarrow> dict \<Rightarrow> dict" where
  "with_revisions show_revisions data_series =
     (if show_revisions then dict_set ''show_revisions'' (JBool True) data_series
      else data_series)"

text \<open>
  One round of the loop of \<open>get_df\<close>, after the series has been popped: fetch, then fold.
\<close>

definition load_series :: "client \<Rightarrow> bool \<Rightarrow> gro_client \<Rightarrow> dict \<Rightarrow> error + gro_client" where
  "load_series cl show_revisions self data_series =
     ebind (get_data_points cl (with_revisions show_revisions data_series)) (\<lambda>data_points.
       add_points_to_df cl self (with_revisions show_revisions data_series) data_points)"

text \<open>
  \<^verbatim>\<open>while self._data_series_queue: data_series = self._data_series_queue.pop(); ...\<close>
  The result pairs what the caller gets (the table, or the exception) with the state the
  client is left in.
\<close>

function get_df :: "client \<Rightarrow> bool \<Rightarrow> gro_client \<Rightarrow> (error + data_frame) \<times> gro_client" where
  "get_df cl show_revisions self =
     (if data_series_queue self = [] then (Inr (data_frame self), self)
      else
        let data_series = last (data_series_queue self);
            self = self\<lparr>data_series_queue := butlast (data_series_queue self)\<rparr>
        in case load_series cl show_revisions self data_series of
             Inl e \<Rightarrow> (Inl e, self)
           | Inr self' \<Rightarrow> get_df cl show_revisions self')"
  by pat_completeness auto

termination
proof (relation "measure (\<lambda>(cl, show_revisions, self). length (data_series_queue self))")
  show "wf (measure (\<lambda>(cl, show_revisions, self). length (data_series_queue self)))"
    by simp
next
  fix cl :: client and show_revisions :: bool and self self1 self' :: gro_client
    and data_series :: dict
  assume nonempty: "data_series_queue self \<noteq> []"
    and popped: "self1 = self\<lparr>data_series_queue := butlast (data_series_queue self)\<rparr>"
    and loaded: "load_series cl show_revisions self1 data_series = Inr self'"
  from loaded have "data_series_queue self' = data_series_queue self1"
    by (cases "get_data_points cl (with_revisions show_revisions data_series)";
        cases "folded_frame cl (data_frame self1) (with_revisions show_revisions data_series)
                 (projr (get_data_points cl (with_revisions show_revisions data_series)))")
       (auto simp: load_series_def add_points_to_df_def)
  with nonempty popped
  show "((cl, show_revisions, self'), (cl, show_revisions, self))
          \<in> measure (\<lambda>(cl, show_revisions, self). length (data_series_queue self))"
    by (cases "data_series_queue self" rule: rev_cases) auto
qed

declare get_df.simps [simp del]

section \<open>Notions used in the statements\<close>

text \<open>
  The \<open>factor\<close> entry a unit's \<open>baseConvFactor\<close> holds, as \<open>get\<close> reads it (null when
  the entry is absent), when the lookup returns a unit that has a \<open>baseConvFactor\<close>.
\<close>

definition unit_factor :: "client \<Rightarrow> jval \<Rightarrow> jval option" where
  "unit_factor cl unit_id =
     (case lookup cl ''units'' unit_id of
        Inl e \<Rightarrow> None
      | Inr unit \<Rightarrow>
          (case dict_get unit ''baseConvFactor'' of JObj f \<Rightarrow> Some (dict_get f ''factor'') | _ \<Rightarrow> None))"

text \<open>A unit has a factor when that entry is neither absent nor zero.\<close>

definition has_factor :: "client \<Rightarrow> jval \<Rightarrow> bool" where
  "has_factor cl unit_id = (case unit_factor cl unit_id of None \<Rightarrow> False | Some v \<Rightarrow> truthy v)"

definition no_factor :: "client \<Rightarrow> jval \<Rightarrow> bool" where
  "no_factor cl unit_id = (case unit_factor cl unit_id of None \<Rightarrow> False | Some v \<Rightarrow> \<not> truthy v)"

text \<open>
  The factor and offset of a convertible unit as numbers: the factor is not zero, and the
  offset is 0 when the unit gives none.
\<close>

definition conversion_of :: "client \<Rightarrow> jval \<Rightarrow> (real \<times> real) option" where
  "conversion_of cl unit_id =
     (case lookup cl ''units'' unit_id of
        Inl e \<Rightarrow> None
      | Inr unit \<Rightarrow>
          (case dict_get unit ''baseConvFactor'' of
             JObj f \<Rightarrow>
               (case (as_num (dict_get f ''factor''),
                      as_num (dict_get_default f ''offset'' (JNum 0))) of
                  (Some factor, Some offset) \<Rightarrow> if factor = 0 then None else Some (factor, offset)
                | _ \<Rightarrow> None)
           | _ \<Rightarrow> None))"

text \<open>
  The four dimensions in the order the code goes through them: the keyword argument, the
  entity type searched, and the key the entity's id is passed under. A dimension is
  supplied when its argument is given and not empty.
\<close>

definition dimensions :: "(string \<times> string \<times> string) list" where
  "dimensions =
     [(''item'', ''items'', ''item_id''),
      (''metric'', ''metrics'', ''metric_id''),
      (''region'', ''regions'', ''region_id''),
      (''partner_region'', ''regions'', ''partner_region_id'')]"

definition supplied :: "dict \<Rightarrow> (string \<times> string \<times> string) list" where
  "supplied kwargs = filter (\<lambda>(arg, etype, key). truthy (dict_get kwargs arg)) dimensions"

text \<open>
  The search results of the supplied dimensions, each cut to the configured depth, and the
  keys that go with them.
\<close>

definition pools_of :: "cfg \<Rightarrow> (string \<Rightarrow> dict list) \<Rightarrow> dict \<Rightarrow> dict list list" where
  "pools_of c found kwargs =
     map (\<lambda>(arg, etype, key). take (nat (MAX_RESULT_COMBINATION_DEPTH c)) (found arg))
       (supplied kwargs)"

definition keys_of :: "dict \<Rightarrow> string list" where
  "keys_of kwargs = map (\<lambda>(arg, etype, key). key) (supplied kwargs)"

text \<open>
  The table after one series has been fetched and folded into \<open>df\<close>, and after a list of
  series has been, one after the other: the state the accumulated table is in when a
  later fetch fails.
\<close>

definition loaded_frame :: "client \<Rightarrow> bool \<Rightarrow> data_frame \<Rightarrow> dict \<Rightarrow> error + data_frame" where
  "loaded_frame cl show_revisions df data_series =
     ebind (get_data_points cl (with_revisions show_revisions data_series)) (\<lambda>data_points.
       folded_frame cl df (with_revisions show_revisions data_series) data_points)"

fun load_all :: "client \<Rightarrow> bool \<Rightarrow> data_frame \<Rightarrow> dict list \<Rightarrow> error + data_frame" where
  "load_all cl show_revisions df [] = Inr df"
| "load_all cl show_revisions df (data_series # rest) =
     ebind (loaded_frame cl show_revisions df data_series) (\<lambda>df'.
       load_all cl show_revisions df' rest)"

text \<open>
  A table is well formed when its columns are distinct and every row binds exactly the
  columns, in their order.
\<close>

definition wf_frame :: "data_frame \<Rightarrow> bool" where
  "wf_frame df \<longleftrightarrow> distinct (columns df) \<and> (\<forall>r \<in> set (rows df). map fst r = columns df)"

text \<open>
  The identifying key of a row: its values in the columns of \<open>DATA_POINTS_UNIQUE_COLS\<close>
  that the table has; and the number of rows of a table with a given key.
\<close>

definition identifying_key :: "data_frame \<Rightarrow> dict \<Rightarrow> jval list" where
  "identifying_key df r =
     map (dict_get r) (filter (\<lambda>c. c \<in> set (columns df)) DATA_POINTS_UNIQUE_COLS)"

definition rows_with_key :: "data_frame \<Rightarrow> jval list \<Rightarrow> nat" where
  "rows_with_key df k = length (filter (\<lambda>r. identifying_key df r = k) (rows df))"

text \<open>
  A batch has distinct rows when the table prepared from it (with the \<open>source_id\<close> set
  and the dates parsed) has no row twice.
\<close>

definition batch_rows_distinct :: "client \<Rightarrow> dict \<Rightarrow> dict list \<Rightarrow> bool" where
  "batch_rows_distinct cl data_series data_points =
     (case prepare_batch cl data_series data_points of
        Inr (Some tmp) \<Rightarrow> distinct (rows tmp)
      | _ \<Rightarrow> True)"

section \<open>Example data\<close>

definition example_lookup :: "string \<Rightarrow> jval \<Rightarrow> error + dict" where
  "example_lookup etype entity_id =
     (if etype = ''units'' \<and> entity_id = JNum 1 then
        Inr [(''id'', JNum 1),
             (''baseConvFactor'', JObj [(''factor'', JNum 1000), (''offset'', JNum 0)])]
      else if etype = ''units'' \<and> entity_id = JNum 2 then
        Inr [(''id'', JNum 2),
             (''baseConvFactor'', JObj [(''factor'', JNum 1), (''offset'', JNum 0)])]
      else if etype = ''units'' \<and> entity_id = JNum 3 then
        Inr [(''id'', JNum 3),
             (''baseConvFactor'', JObj [(''factor'', JNum 2), (''offset'', JNum 10)])]
      else if etype = ''units'' \<and> entity_id = JNum 4 then
        Inr [(''id'', JNum 4), (''baseConvFactor'', JObj [(''offset'', JNum 0)])]
      else Inl (ExternalError ''not found''))"

definition example_search :: "string \<Rightarrow> jval \<Rightarrow> error + dict list" where
  "example_search etype text =
     (if etype = ''items'' \<and> text = JStr ''Corn'' then
        Inr [[(''id'', JNum 274)], [(''id'', JNum 275)], [(''id'', JNum 276)], [(''id'', JNum 277)]]
      else if etype = ''metrics'' \<and> text = JStr ''Price'' then
        Inr [[(''id'', JNum 10)], [(''id'', JNum 20)]]
      else Inr [])"

definition example_get_data_series :: "dict \<Rightarrow> error + dict list" where
  "example_get_data_series entities =
     (if dict_get entities ''item_id'' = JNum 275 then Inl (ExternalError ''timeout'')
      else Inr [dict_set ''source_id'' (JNum 2) entities])"

definition example_fetch :: "dict \<Rightarrow> error + dict list" where
  "example_fetch selections =
     (if dict_get selections ''source_id'' = JNum 99 then Inl (ExternalError ''timeout'')
      else Inr [[(''start_date'', JStr ''2017''), (''value'', JNum 100),
                 (''item_id'', dict_get selections ''item_id'')],
                [(''start_date'', JStr ''2018''), (''value'', JNum 200),
                 (''item_id'', dict_get selections ''item_id'')]])"

definition example_to_datetime :: "jval \<Rightarrow> error + jval" where
  "example_to_datetime v =
     (case v of JStr s \<Rightarrow> Inr (JStr s) | JNull \<Rightarrow> Inr JNull | _ \<Rightarrow> Inl TypeError)"

definition example_client :: client where
  "example_client =
     \<lparr>search = example_search,
      lookup = example_lookup,
      get_data_series = example_get_data_series,
      rank_series_by_source = (\<lambda>series_list. Inr series_list),
      super_get_data_points = example_fetch,
      to_datetime = example_to_datetime\<rparr>"

definition example_found :: "string \<Rightarrow> dict list" where
  "example_found arg =
     (if arg = ''item'' then
        [[(''id'', JNum 274)], [(''id'', JNum 275)], [(''id'', JNum 276)], [(''id'', JNum 277)]]
      else [[(''id'', JNum 10)], [(''id'', JNum 20)]])"

definition example_good :: dict where
  "example_good = [(''item_id'', JNum 274), (''source_id'', JNum 2)]"

definition example_bad :: dict where
  "example_bad = [(''item_id'', JNum 274), (''source_id'', JNum 99)]"

definition example_table :: data_frame where
  "example_table =
     \<lparr>columns = [''start_date'', ''value'', ''item_id'', ''source_id''],
      rows = [[(''start_date'', JStr ''2017''), (''value'', JNum 100), (''item_id'', JNum 274),
               (''source_id'', JNum 2)],
              [(''start_date'', JStr ''2018''), (''value'', JNum 200), (''item_id'', JNum 274),
               (''source_id'', JNum 2)]]\<rparr>"

definition example_points :: "dict list" where
  "example_points =
     [[(''start_date'', JStr ''2017''), (''value'', JNum 100), (''item_id'', JNum 274)],
      [(''start_date'', JStr ''2018''), (''value'', JNum 200), (''item_id'', JNum 274)]]"

definition example_repeated :: "dict list" where
  "example_repeated =
     [[(''start_date'', JStr ''2017''), (''value'', JNum 100), (''item_id'', JNum 274)],
      [(''start_date'', JStr ''2017''), (''value'', JNum 100), (''item_id'', JNum 274)]]"

definition example_row :: dict where
  "example_row = [(''start_date'', JStr ''2017''), (''value'', JNum 100), (''item_id'', JNum 274),
                  (''source_id'', JNum 2)]"

definition example_point :: dict where
  "example_point = [(''start_date'', JStr ''2017-01-01''), (''value'', JNum 100), (''unit_id'', JNum 1)]"

section \<open>Dictionaries\<close>

lemma map_of_dict_set: "map_of (dict_set k v d) = (map_of d)(k \<mapsto> v)"
  by (induction d) auto

lemma dict_get_dict_set: "dict_get (dict_set k v d) k' = (if k' = k then v else dict_get d k')"
  by (simp add: dict_get_def map_of_dict_set)

lemma keys_dict_set:
  "map fst (dict_set k v d) = (if dict_has d k then map fst d else map fst d @ [k])"
  by (induction d) (auto simp: dict_has_def)

lemma dict_has_dict_set: "dict_has (dict_set k v d) k' \<longleftrightarrow> k' = k \<or> dict_has d k'"
  by (simp add: dict_has_def map_of_dict_set)

lemma dict_get_present: "dict_get d k \<noteq> JNull \<Longrightarrow> dict_has d k"
  by (cases "map_of d k") (simp_all add: dict_get_def dict_has_def)

lemma py_eq_refl: "py_eq a a"
  by (cases a) (simp_all add: py_eq_def)

lemma py_eq_sym: "py_eq a b \<Longrightarrow> py_eq b a"
  by (auto simp: py_eq_def split: option.splits)


lemma as_num_truthy: "as_num v = Some r \<Longrightarrow> r \<noteq> 0 \<Longrightarrow> truthy v"
  by (cases v) (auto split: if_splits)

lemma conversion_of_factor:
  assumes "conversion_of cl u = Some (ff, fo)"
  obtains f where "convert_factor cl u = Inr f"
    and "num_operand (dict_get f ''factor'') = Inr ff"
    and "num_operand (dict_get_default f ''offset'' (JNum 0)) = Inr fo"
    and "ff \<noteq> 0"
  using assms
  by (auto simp: conversion_of_def convert_factor_def num_operand_def as_num_truthy
           split: sum.splits jval.splits option.splits if_splits)

lemma has_factor_iff: "has_factor cl u \<longleftrightarrow> (\<exists>f. convert_factor cl u = Inr f)"
  by (auto simp: has_factor_def unit_factor_def convert_factor_def split: sum.splits jval.splits)

lemma no_factor_error: "no_factor cl u \<Longrightarrow> convert_factor cl u = Inl (NotConvertible u)"
  by (auto simp: no_factor_def unit_factor_def convert_factor_def split: sum.splits jval.splits)

lemma convert_value_error: "convert_value v f t \<noteq> Inl (NotConvertible w)"
  by (auto simp: convert_value_def num_operand_def split: option.splits)

lemma conversion_of_has_factor: "conversion_of cl u = Some c \<Longrightarrow> has_factor cl u"
  by (auto simp: conversion_of_def has_factor_def unit_factor_def as_num_truthy
           split: sum.splits jval.splits option.splits if_splits)

section \<open>Unit conversion: the arithmetic\<close>

lemma convert_unit_numeric:
  assumes "dict_get point ''unit_id'' \<noteq> JNull"
    and "\<not> py_eq (dict_get point ''unit_id'') target_unit_id"
    and "as_num (dict_get point ''value'') = Some x"
    and "conversion_of cl (dict_get point ''unit_id'') = Some (from_factor, from_offset)"
    and "conversion_of cl target_unit_id = Some (to_factor, to_offset)"
  shows "convert_unit cl point target_unit_id =
           Inr (dict_set ''unit_id'' target_unit_id
                  (dict_set ''value''
                     (JNum (((x * from_factor + from_offset) - to_offset) / to_factor)) point))"
proof -
  from assms(4) obtain f where f: "convert_factor cl (dict_get point ''unit_id'') = Inr f"
    "num_operand (dict_get f ''factor'') = Inr from_factor"
    "num_operand (dict_get_default f ''offset'' (JNum 0)) = Inr from_offset"
    by (rule conversion_of_factor)
  from assms(5) obtain t where t: "convert_factor cl target_unit_id = Inr t"
    "num_operand (dict_get t ''factor'') = Inr to_factor"
    "num_operand (dict_get_default t ''offset'' (JNum 0)) = Inr to_offset"
    "to_factor \<noteq> 0"
    by (rule conversion_of_factor)
  from assms(3) have v: "dict_get point ''value'' \<noteq> JNull"
    "num_operand (dict_get point ''value'') = Inr x"
    by (auto simp: num_operand_def)
  show ?thesis
    using assms(1,2) f t v by (simp add: convert_unit_def convert_value_def)
qed


lemma convert_unit_null:
  assumes "dict_get point ''unit_id'' \<noteq> JNull"
    and "\<not> py_eq (dict_get point ''unit_id'') target_unit_id"
    and "dict_get point ''value'' = JNull"
    and "has_factor cl (dict_get point ''unit_id'')"
    and "has_factor cl target_unit_id"
  shows "convert_unit cl point target_unit_id = Inr (dict_set ''unit_id'' target_unit_id point)"
  using assms by (auto simp: convert_unit_def has_factor_iff)

lemma example_conv1: "conversion_of example_client (JNum 1) = Some (1000, 0)"
  by (simp add: conversion_of_def example_client_def example_lookup_def dict_get_def
                dict_get_default_def)

lemma example_conv2: "conversion_of example_client (JNum 2) = Some (1, 0)"
  by (simp add: conversion_of_def example_client_def example_lookup_def dict_get_def
                dict_get_default_def)

lemma example_conv3: "conversion_of example_client (JNum 3) = Some (2, 10)"
  by (simp add: conversion_of_def example_client_def example_lookup_def dict_get_def
                dict_get_default_def)

lemma example_has1: "has_factor example_client (JNum 1)"
  by (simp add: has_factor_def unit_factor_def example_client_def example_lookup_def dict_get_def)

lemma example_has2: "has_factor example_client (JNum 2)"
  by (simp add: has_factor_def unit_factor_def example_client_def example_lookup_def dict_get_def)

lemma example_no4: "no_factor example_client (JNum 4)"
  by (simp add: no_factor_def unit_factor_def example_client_def example_lookup_def dict_get_def)

text \<open>
  C2. An observation with a numeric value in a unit other than the target, both units
  convertible: \<open>convert_unit\<close> returns the observation with the target as \<open>unit_id\<close> and
  \<open>((value * from.factor + from.offset) - to.offset) / to.factor\<close> as value, through the
  base unit. At the example, 100 in a unit of factor 1000 becomes 100000 in a unit of
  factor 1.
\<close>

theorem convert_unit_two_hop:
  assumes "dict_get point ''unit_id'' \<noteq> JNull"
    and "\<not> py_eq (dict_get point ''unit_id'') target_unit_id"
    and "as_num (dict_get point ''value'') = Some x"
    and "conversion_of cl (dict_get point ''unit_id'') = Some (from_factor, from_offset)"
    and "conversion_of cl target_unit_id = Some (to_factor, to_offset)"
  shows "convert_unit cl point target_unit_id =
           Inr (dict_set ''unit_id'' target_unit_id
                  (dict_set ''value''
                     (JNum (((x * from_factor + from_offset) - to_offset) / to_factor)) point))"
  using assms by (rule convert_unit_numeric)

theorem convert_unit_two_hop_witness:
  "convert_unit example_client example_point (JNum 2) =
     Inr [(''start_date'', JStr ''2017-01-01''), (''value'', JNum 100000), (''unit_id'', JNum 2)]"
  using convert_unit_two_hop [of example_point "JNum 2" 100 example_client 1000 0 1 0]
  by (simp add: example_conv1 example_conv2 example_point_def dict_get_def py_eq_def)


text \<open>
  C3. For an observation whose \<open>unit_id\<close> is set and differs from the target:
  when the source or the target unit has no factor (the lookup fails, or there is no
  \<open>baseConvFactor\<close>, or its factor is absent or zero) the call raises, so no observation
  is returned; a unit whose factor is absent or zero is reported by the exception that
  names it, the source unit first; and when both units have a factor, that exception is
  not raised.
\<close>

theorem convert_unit_not_convertible:
  assumes "dict_get point ''unit_id'' \<noteq> JNull"
    and "\<not> py_eq (dict_get point ''unit_id'') target_unit_id"
  shows "(\<not> has_factor cl (dict_get point ''unit_id'') \<or> \<not> has_factor cl target_unit_id
            \<longrightarrow> (\<exists>e. convert_unit cl point target_unit_id = Inl e))
       \<and> (no_factor cl (dict_get point ''unit_id'')
            \<longrightarrow> convert_unit cl point target_unit_id
                  = Inl (NotConvertible (dict_get point ''unit_id'')))
       \<and> (has_factor cl (dict_get point ''unit_id'') \<and> no_factor cl target_unit_id
            \<longrightarrow> convert_unit cl point target_unit_id = Inl (NotConvertible target_unit_id))
       \<and> (has_factor cl (dict_get point ''unit_id'') \<and> has_factor cl target_unit_id
            \<longrightarrow> (\<forall>u. convert_unit cl point target_unit_id \<noteq> Inl (NotConvertible u)))"
proof (intro conjI impI allI)
  assume "\<not> has_factor cl (dict_get point ''unit_id'') \<or> \<not> has_factor cl target_unit_id"
  then show "\<exists>e. convert_unit cl point target_unit_id = Inl e"
    using assms
    by (cases "convert_factor cl (dict_get point ''unit_id'')";
        cases "convert_factor cl target_unit_id")
       (auto simp: convert_unit_def has_factor_iff)
next
  assume "no_factor cl (dict_get point ''unit_id'')"
  then show "convert_unit cl point target_unit_id = Inl (NotConvertible (dict_get point ''unit_id''))"
    using assms by (simp add: convert_unit_def no_factor_error)
next
  assume "has_factor cl (dict_get point ''unit_id'') \<and> no_factor cl target_unit_id"
  then show "convert_unit cl point target_unit_id = Inl (NotConvertible target_unit_id)"
    using assms by (auto simp: convert_unit_def no_factor_error has_factor_iff)
next
  fix u
  assume "has_factor cl (dict_get point ''unit_id'') \<and> has_factor cl target_unit_id"
  then obtain f t where "convert_factor cl (dict_get point ''unit_id'') = Inr f"
    and "convert_factor cl target_unit_id = Inr t"
    by (auto simp: has_factor_iff)
  then show "convert_unit cl point target_unit_id \<noteq> Inl (NotConvertible u)"
    using assms convert_value_error [of "dict_get point ''value''" f t u]
    by (cases "convert_value (dict_get point ''value'') f t") (auto simp: convert_unit_def)
qed

theorem convert_unit_not_convertible_witness:
  "convert_unit example_client example_point (JNum 4) = Inl (NotConvertible (JNum 4))
   \<and> convert_unit example_client [(''value'', JNum 7), (''unit_id'', JNum 4)] (JNum 1)
       = Inl (NotConvertible (JNum 4))
   \<and> (\<forall>u. convert_unit example_client example_point (JNum 2) \<noteq> Inl (NotConvertible u))"
  using convert_unit_not_convertible [of example_point "JNum 4" example_client]
    convert_unit_not_convertible [of "[(''value'', JNum 7), (''unit_id'', JNum 4)]" "JNum 1" example_client]
    convert_unit_not_convertible [of example_point "JNum 2" example_client]
  by (simp add: example_has1 example_has2 example_no4 example_point_def dict_get_def py_eq_def)

text \<open>
  C7. When the observation's \<open>unit_id\<close> is null (absent or \<open>None\<close>) or already equals the
  target, \<open>convert_unit\<close> returns the observation itself, whatever the collaborators do:
  the result does not depend on any lookup, so none is needed and no error can arise.
\<close>

theorem convert_unit_identity:
  "dict_get point ''unit_id'' = JNull \<or> py_eq (dict_get point ''unit_id'') target_unit_id
   \<Longrightarrow> convert_unit cl point target_unit_id = Inr point"
  by (simp add: convert_unit_def)

theorem convert_unit_identity_witness:
  "convert_unit example_client example_point (JNum 1) = Inr example_point
   \<and> convert_unit example_client [(''value'', JNum 5)] (JNum 4) = Inr [(''value'', JNum 5)]"
  using convert_unit_identity [of example_point "JNum 1" example_client]
    convert_unit_identity [of "[(''value'', JNum 5)]" "JNum 4" example_client]
  by (simp add: example_point_def dict_get_def py_eq_def)

text \<open>
  C8, as the claim states it, fails: the value is a field other than \<open>unit_id\<close>, and the
  conversion changes it.
\<close>

theorem convert_unit_changes_value:
  "convert_unit example_client example_point (JNum 2) =
     Inr [(''start_date'', JStr ''2017-01-01''), (''value'', JNum 100000), (''unit_id'', JNum 2)]
   \<and> dict_get [(''start_date'', JStr ''2017-01-01''), (''value'', JNum 100000), (''unit_id'', JNum 2)] ''value''
       \<noteq> dict_get example_point ''value''"
  by (simp add: convert_unit_def convert_factor_def convert_value_def num_operand_def
        example_client_def example_lookup_def example_point_def dict_get_def dict_get_default_def
        py_eq_def)


text \<open>
  C8, amended. When \<open>convert_unit\<close> returns for a target other than the observation's
  unit, the result has the target as \<open>unit_id\<close>, every field other than \<open>unit_id\<close> and
  \<open>value\<close> is as in the input, and the observation has the same keys in the same order.
\<close>

theorem convert_unit_frame:
  assumes "convert_unit cl point target_unit_id = Inr point'"
    and "dict_get point ''unit_id'' \<noteq> JNull"
    and "\<not> py_eq (dict_get point ''unit_id'') target_unit_id"
  shows "dict_get point' ''unit_id'' = target_unit_id
       \<and> (\<forall>k. k \<noteq> ''unit_id'' \<and> k \<noteq> ''value'' \<longrightarrow> map_of point' k = map_of point k)
       \<and> map fst point' = map fst point"
proof -
  from assms obtain v where
    "point' = dict_set ''unit_id'' target_unit_id (dict_set ''value'' v point)
       \<and> dict_get point ''value'' \<noteq> JNull
     \<or> point' = dict_set ''unit_id'' target_unit_id point"
    by (cases "convert_factor cl (dict_get point ''unit_id'')";
        cases "convert_factor cl target_unit_id";
        cases "convert_value (dict_get point ''value'') (projr (convert_factor cl (dict_get point ''unit_id'')))
                 (projr (convert_factor cl target_unit_id))")
       (auto simp: convert_unit_def split: if_splits)
  moreover have "dict_has point ''unit_id''"
    using assms(2) by (rule dict_get_present)
  moreover have "dict_get point ''value'' \<noteq> JNull \<Longrightarrow> dict_has point ''value''"
    by (rule dict_get_present)
  ultimately show ?thesis
    by (auto simp: dict_get_dict_set map_of_dict_set keys_dict_set dict_has_dict_set)
qed

theorem convert_unit_frame_witness:
  "dict_get [(''start_date'', JStr ''2017-01-01''), (''value'', JNum 100000), (''unit_id'', JNum 2)]
      ''unit_id'' = JNum 2
   \<and> map_of [(''start_date'', JStr ''2017-01-01''), (''value'', JNum 100000), (''unit_id'', JNum 2)]
        ''start_date'' = map_of example_point ''start_date''
   \<and> map fst [(''start_date'', JStr ''2017-01-01''), (''value'', JNum 100000), (''unit_id'', JNum 2)]
        = map fst example_point"
  using convert_unit_frame [of example_client example_point "JNum 2"
      "[(''start_date'', JStr ''2017-01-01''), (''value'', JNum 100000), (''unit_id'', JNum 2)]"]
    convert_unit_numeric [of example_point "JNum 2" 100 example_client 1000 0 1 0]
  by (simp add: example_conv1 example_conv2 example_point_def dict_get_def py_eq_def)

text \<open>
  C10. An observation whose value is null, converted to another unit, both units having a
  factor: the result is the observation with \<open>unit_id\<close> set to the target and nothing
  else touched; the value is still null.
\<close>

theorem convert_unit_null_value:
  assumes "dict_get point ''unit_id'' \<noteq> JNull"
    and "\<not> py_eq (dict_get point ''unit_id'') target_unit_id"
    and "dict_get point ''value'' = JNull"
    and "has_factor cl (dict_get point ''unit_id'')"
    and "has_factor cl target_unit_id"
  shows "\<exists>point'. convert_unit cl point target_unit_id = Inr point'
           \<and> point' = dict_set ''unit_id'' target_unit_id point
           \<and> dict_get point' ''unit_id'' = target_unit_id
           \<and> dict_get point' ''value'' = JNull
           \<and> map_of point' ''value'' = map_of point ''value''"
  using assms convert_unit_null [OF assms]
  by (simp add: dict_get_dict_set map_of_dict_set)

theorem convert_unit_null_value_witness:
  "convert_unit example_client [(''value'', JNull), (''unit_id'', JNum 1)] (JNum 2)
     = Inr [(''value'', JNull), (''unit_id'', JNum 2)]"
  using convert_unit_null_value [of "[(''value'', JNull), (''unit_id'', JNum 1)]" "JNum 2" example_client]
  by (simp add: example_has1 example_has2 dict_get_def py_eq_def)

text \<open>
  C6. For units \<open>a\<close> and \<open>b\<close> that are convertible, an observation in unit \<open>a\<close> whose value
  is a number or null is converted to \<open>b\<close> and back without error, and the result has the
  original value, the unit \<open>a\<close> and the other fields as they were. Arithmetic is exact.
\<close>

theorem convert_unit_round_trip:
  assumes "a \<noteq> JNull" and "b \<noteq> JNull"
    and "dict_get point ''unit_id'' = a"
    and "conversion_of cl a = Some (a_factor, a_offset)"
    and "conversion_of cl b = Some (b_factor, b_offset)"
    and "dict_get point ''value'' = JNull \<or> as_num (dict_get point ''value'') \<noteq> None"
  shows "\<exists>there home. convert_unit cl point b = Inr there
           \<and> convert_unit cl there a = Inr home
           \<and> py_eq (dict_get home ''value'') (dict_get point ''value'')
           \<and> dict_get home ''unit_id'' = a
           \<and> (\<forall>k. k \<noteq> ''unit_id'' \<and> k \<noteq> ''value'' \<longrightarrow> map_of home k = map_of point k)"
proof (cases "py_eq a b")
  case True
  then have "convert_unit cl point b = Inr point" "convert_unit cl point a = Inr point"
    using assms(3) by (simp_all add: convert_unit_def py_eq_refl)
  then show ?thesis using assms(3) by (simp add: py_eq_refl)
next
  case False
  then have ne: "\<not> py_eq (dict_get point ''unit_id'') b" "\<not> py_eq b a"
    using assms(3) py_eq_sym by auto
  from assms(4) have a0: "a_factor \<noteq> 0" by (rule conversion_of_factor)
  from assms(5) have b0: "b_factor \<noteq> 0" by (rule conversion_of_factor)
  show ?thesis
  proof (cases "dict_get point ''value'' = JNull")
    case True
    let ?there = "dict_set ''unit_id'' b point"
    have 1: "convert_unit cl point b = Inr ?there"
      using assms ne True by (intro convert_unit_null) (auto dest: conversion_of_has_factor)
    have 2: "convert_unit cl ?there a = Inr (dict_set ''unit_id'' a ?there)"
      using assms ne True
      by (intro convert_unit_null) (auto simp: dict_get_dict_set dest: conversion_of_has_factor)
    show ?thesis
      using 1 2 True assms(3) by (simp add: dict_get_dict_set map_of_dict_set py_eq_refl)
  next
    case nonnull: False
    with assms(6) obtain x where x: "as_num (dict_get point ''value'') = Some x" by auto
    let ?y = "((x * a_factor + a_offset) - b_offset) / b_factor"
    let ?there = "dict_set ''unit_id'' b (dict_set ''value'' (JNum ?y) point)"
    let ?z = "((?y * b_factor + b_offset) - a_offset) / a_factor"
    let ?home = "dict_set ''unit_id'' a (dict_set ''value'' (JNum ?z) ?there)"
    have 1: "convert_unit cl point b = Inr ?there"
      using assms ne x by (intro convert_unit_numeric) auto
    have 2: "convert_unit cl ?there a = Inr ?home"
      using assms ne by (intro convert_unit_numeric) (auto simp: dict_get_dict_set)
    have z: "?z = x" using a0 b0 by (simp add: field_simps)
    have "py_eq (JNum x) (dict_get point ''value'')"
      using x by (simp add: py_eq_def)
    then show ?thesis
      using 1 2 z by (simp add: dict_get_dict_set map_of_dict_set)
  qed
qed

theorem convert_unit_round_trip_witness:
  "convert_unit example_client example_point (JNum 3)
     = Inr [(''start_date'', JStr ''2017-01-01''), (''value'', JNum 49995), (''unit_id'', JNum 3)]
   \<and> convert_unit example_client
        [(''start_date'', JStr ''2017-01-01''), (''value'', JNum 49995), (''unit_id'', JNum 3)] (JNum 1)
     = Inr example_point"
  using convert_unit_round_trip [of "JNum 1" "JNum 3" example_point example_client 1000 0 2 10]
  by (simp add: example_conv1 example_conv3 example_point_def dict_get_def py_eq_def
        convert_unit_def convert_factor_def convert_value_def num_operand_def
        example_client_def example_lookup_def dict_get_default_def)


section \<open>The Cartesian product of the search results\<close>

lemma foldl_product_step:
  "foldl product_step result pools =
     concat (map (\<lambda>r. map (\<lambda>t. r @ t) (product_lists pools)) result)"
proof (induction pools arbitrary: result)
  case Nil
  then show ?case by simp
next
  case (Cons pool pools)
  have "foldl product_step result (pool # pools) = foldl product_step (product_step result pool) pools"
    by simp
  also have "\<dots> = concat (map (\<lambda>r. map (\<lambda>t. r @ t) (product_lists pools)) (product_step result pool))"
    by (rule Cons.IH)
  also have "\<dots> = concat (map (\<lambda>r. map (\<lambda>t. r @ t) (product_lists (pool # pools))) result)"
  proof -
    have head: "\<And>r x. (@) (r @ [x]) = (\<lambda>t. r @ x # t)"
      by (rule ext) simp
    show ?thesis
      by (induction result) (simp_all add: product_step_def map_concat comp_def head)
  qed
  finally show ?case .
qed

lemma itertools_product_eq: "itertools_product pools = product_lists pools"
proof -
  have "map ((@) []) xs = xs" for xs :: "'a list list"
    by (induction xs) simp_all
  then show ?thesis
    by (simp add: itertools_product_def foldl_product_step)
qed

lemma length_product_lists_prod: "length (product_lists xss) = prod_list (map length xss)"
  by (induction xss) (simp_all add: length_concat comp_def sum_list_triv)

lemma prod_list_le_power:
  "\<forall>x \<in> set xs. x \<le> (d::nat) \<Longrightarrow> prod_list xs \<le> d ^ length xs"
  by (induction xs) (auto intro: mult_le_mono)

lemma nth_concat_uniform:
  "\<forall>x \<in> set xs. length (f x) = m \<Longrightarrow> n < length xs * m
     \<Longrightarrow> concat (map f xs) ! n = f (xs ! (n div m)) ! (n mod m)"
proof (induction xs arbitrary: n)
  case Nil
  then show ?case by simp
next
  case (Cons x xs)
  show ?case
  proof (cases "n < m")
    case True
    with Cons.prems show ?thesis by (simp add: nth_append)
  next
    case False
    then have "n - m < length xs * m" using Cons.prems by auto
    moreover have "0 < m" using Cons.prems False by (cases m) auto
    ultimately show ?thesis
      using Cons False by (simp add: nth_append le_div_geq le_mod_geq)
  qed
qed

lemma product_lists_nth:
  "n < length (product_lists xss) \<Longrightarrow> j < length xss \<Longrightarrow>
     product_lists xss ! n ! j =
       xss ! j ! ((n div prod_list (map length (drop (Suc j) xss))) mod length (xss ! j))"
proof (induction xss arbitrary: n j)
  case Nil
  then show ?case by simp
next
  case (Cons xs xss)
  let ?P = "length (product_lists xss)"
  have n: "n < length xs * ?P"
    using Cons.prems(1) by (simp add: length_concat comp_def sum_list_triv)
  then have P: "0 < ?P" by (cases ?P) auto
  have row: "product_lists (xs # xss) ! n = (xs ! (n div ?P)) # (product_lists xss ! (n mod ?P))"
    using nth_concat_uniform [of xs "\<lambda>x. map ((#) x) (product_lists xss)" ?P n] n P
    by simp
  show ?case
  proof (cases j)
    case 0
    have "n div ?P < length xs" using n P by (simp add: less_mult_imp_div_less)
    then show ?thesis using 0 row by (simp add: length_product_lists_prod)
  next
    case (Suc j')
    then have j': "j' < length xss" using Cons.prems(2) by simp
    let ?Q = "prod_list (map length (drop (Suc j') xss))"
    let ?L = "length (xss ! j')"
    let ?A = "prod_list (map length (take j' xss))"
    have "xss = take j' xss @ (xss ! j') # drop (Suc j') xss"
      using j' by (rule id_take_nth_drop)
    then have "prod_list (map length xss) = prod_list (map length (take j' xss @ (xss ! j') # drop (Suc j') xss))"
      by simp
    then have split: "?P = ?Q * (?L * ?A)"
      by (simp add: length_product_lists_prod mult_ac)
    have Q: "0 < ?Q" using P split by (cases ?Q) auto
    have "(n mod ?P) div ?Q = (n div ?Q) mod (?L * ?A)"
      unfolding split using Q by (simp add: mod_mult2_eq)
    then have "(n mod ?P) div ?Q mod ?L = (n div ?Q) mod (?L * ?A) mod ?L"
      by simp
    also have "\<dots> = (n div ?Q) mod ?L"
      by (simp add: mod_mod_cancel)
    finally have idx: "(n mod ?P) div ?Q mod ?L = (n div ?Q) mod ?L" .
    have "product_lists xss ! (n mod ?P) ! j' = xss ! j' ! ((n mod ?P) div ?Q mod ?L)"
      using P j' by (intro Cons.IH) simp_all
    then show ?thesis using Suc row idx by simp
  qed
qed


section \<open>Finding data series: the combinations\<close>

lemma search_dimension_found:
  assumes "truthy (dict_get kwargs arg) \<Longrightarrow> search cl etype (dict_get kwargs arg) = Inr found"
    and "0 \<le> MAX_RESULT_COMBINATION_DEPTH c"
  shows "search_dimension cl c kwargs arg etype key (search_results, keys) =
           Inr (search_results @ (if truthy (dict_get kwargs arg)
                                  then [take (nat (MAX_RESULT_COMBINATION_DEPTH c)) found] else []),
                keys @ (if truthy (dict_get kwargs arg) then [key] else []))"
  using assms by (simp add: search_dimension_def py_slice_to_def)

lemma search_all_found:
  assumes "\<forall>(arg, etype, key) \<in> set (supplied kwargs).
             search cl etype (dict_get kwargs arg) = Inr (found arg)"
    and "0 \<le> MAX_RESULT_COMBINATION_DEPTH c"
  shows "search_all cl c kwargs = Inr (pools_of c found kwargs, keys_of kwargs)"
proof -
  have mem: "\<And>arg etype key. (arg, etype, key) \<in> set dimensions
               \<Longrightarrow> truthy (dict_get kwargs arg)
               \<Longrightarrow> search cl etype (dict_get kwargs arg) = Inr (found arg)"
    using assms(1) unfolding supplied_def by auto
  have 1: "truthy (dict_get kwargs ''item'')
             \<Longrightarrow> search cl ''items'' (dict_get kwargs ''item'') = Inr (found ''item'')"
    and 2: "truthy (dict_get kwargs ''metric'')
             \<Longrightarrow> search cl ''metrics'' (dict_get kwargs ''metric'') = Inr (found ''metric'')"
    and 3: "truthy (dict_get kwargs ''region'')
             \<Longrightarrow> search cl ''regions'' (dict_get kwargs ''region'') = Inr (found ''region'')"
    and 4: "truthy (dict_get kwargs ''partner_region'')
             \<Longrightarrow> search cl ''regions'' (dict_get kwargs ''partner_region'')
                   = Inr (found ''partner_region'')"
    by (rule mem; simp add: dimensions_def)+
  show ?thesis
    unfolding search_all_def
    by (simp add: search_dimension_found [OF 1 assms(2)] search_dimension_found [OF 2 assms(2)]
          search_dimension_found [OF 3 assms(2)] search_dimension_found [OF 4 assms(2)]
          pools_of_def keys_of_def supplied_def dimensions_def)
qed

lemma length_supplied_pools:
  assumes "0 \<le> MAX_RESULT_COMBINATION_DEPTH c"
  shows "length (itertools_product (pools_of c found kwargs))
           \<le> nat (MAX_RESULT_COMBINATION_DEPTH c) ^ length (supplied kwargs)"
proof -
  have "prod_list (map length (pools_of c found kwargs))
          \<le> nat (MAX_RESULT_COMBINATION_DEPTH c) ^ length (map length (pools_of c found kwargs))"
    by (rule prod_list_le_power) (auto simp: pools_of_def)
  then show ?thesis
    by (simp add: itertools_product_eq length_product_lists_prod pools_of_def)
qed

lemma example_client_fields:
  "search example_client = example_search"
  "lookup example_client = example_lookup"
  "get_data_series example_client = example_get_data_series"
  "rank_series_by_source example_client = Inr"
  "super_get_data_points example_client = example_fetch"
  "to_datetime example_client = example_to_datetime"
  by (simp_all add: example_client_def)

lemma example_item_search:
  "search_all example_client default_cfg [(''item'', JStr ''Corn'')] =
     Inr ([[[(''id'', JNum 274)], [(''id'', JNum 275)], [(''id'', JNum 276)]]], [''item_id''])"
  by (simp add: search_all_def search_dimension_def example_client_def example_search_def
        default_cfg_def py_slice_to_def dict_get_def)

text \<open>
  C4, as the claim states it, fails where no dimension is supplied: the product of no
  lists is the one empty combination, not none, and the series lookup is called for it
  without any constraint.
\<close>

theorem no_dimension_one_combination:
  "search_all example_client default_cfg [] = Inr ([], [])
   \<and> length (itertools_product ([] :: dict list list)) = 1
   \<and> find_data_series example_client default_cfg [] = Inr [[(''source_id'', JNum 2)]]"
  by (simp add: find_data_series_def
        search_all_def search_dimension_def example_client_def example_search_def
        default_cfg_def py_slice_to_def dict_get_def itertools_product_def product_step_def
        series_of_comb_def entities_of_def dict_item_def dict_of_pairs_def stamp_dates_def
        example_get_data_series_def)

text \<open>
  C4, amended. When the searches of the supplied dimensions return, and the depth \<open>D\<close> is
  not negative: each result list is cut to its first \<open>D\<close> entries, in the order item,
  metric, region, partner region; the sweep runs over the product of these lists; the
  product has as many combinations as the product of the lists' lengths, at most
  \<open>D ^ k\<close> for \<open>k\<close> supplied dimensions; its combinations are exactly the choices of one
  entity from each list; combination number \<open>n\<close> takes from list \<open>j\<close> the entry numbered
  \<open>n\<close> divided by the sizes of the later lists, modulo the size of list \<open>j\<close>, so earlier
  dimensions vary slowest; and with no dimension supplied there is the one empty
  combination. At the example, item and metric with depth 3 give 6 of at most 9
  combinations, item-major.
\<close>

theorem find_data_series_combinations:
  assumes "\<forall>(arg, etype, key) \<in> set (supplied kwargs).
             search cl etype (dict_get kwargs arg) = Inr (found arg)"
    and "0 \<le> MAX_RESULT_COMBINATION_DEPTH c"
  shows "search_all cl c kwargs = Inr (pools_of c found kwargs, keys_of kwargs)
       \<and> find_data_series cl c kwargs =
           ebind (sweep cl kwargs (keys_of kwargs) (itertools_product (pools_of c found kwargs)) [])
             (rank_series_by_source cl)
       \<and> length (itertools_product (pools_of c found kwargs))
           = prod_list (map length (pools_of c found kwargs))
       \<and> length (itertools_product (pools_of c found kwargs))
           \<le> nat (MAX_RESULT_COMBINATION_DEPTH c) ^ length (supplied kwargs)
       \<and> set (itertools_product (pools_of c found kwargs))
           = {comb. list_all2 (\<lambda>entity pool. entity \<in> set pool) comb (pools_of c found kwargs)}
       \<and> (\<forall>n j. n < length (itertools_product (pools_of c found kwargs))
                  \<and> j < length (pools_of c found kwargs) \<longrightarrow>
             itertools_product (pools_of c found kwargs) ! n ! j =
               pools_of c found kwargs ! j !
                 ((n div prod_list (map length (drop (Suc j) (pools_of c found kwargs))))
                    mod length (pools_of c found kwargs ! j)))
       \<and> (supplied kwargs = [] \<longrightarrow> itertools_product (pools_of c found kwargs) = [[]])"
proof (intro conjI allI impI)
  show "search_all cl c kwargs = Inr (pools_of c found kwargs, keys_of kwargs)"
    using assms by (rule search_all_found)
  then show "find_data_series cl c kwargs =
           ebind (sweep cl kwargs (keys_of kwargs) (itertools_product (pools_of c found kwargs)) [])
             (rank_series_by_source cl)"
    by (simp add: find_data_series_def)
  show "length (itertools_product (pools_of c found kwargs))
           = prod_list (map length (pools_of c found kwargs))"
    by (simp add: itertools_product_eq length_product_lists_prod)
  show "length (itertools_product (pools_of c found kwargs))
           \<le> nat (MAX_RESULT_COMBINATION_DEPTH c) ^ length (supplied kwargs)"
    using assms(2) by (rule length_supplied_pools)
  show "set (itertools_product (pools_of c found kwargs))
           = {comb. list_all2 (\<lambda>entity pool. entity \<in> set pool) comb (pools_of c found kwargs)}"
    by (simp add: itertools_product_eq product_lists_set)
next
  fix n j
  assume "n < length (itertools_product (pools_of c found kwargs))
            \<and> j < length (pools_of c found kwargs)"
  then show "itertools_product (pools_of c found kwargs) ! n ! j =
               pools_of c found kwargs ! j !
                 ((n div prod_list (map length (drop (Suc j) (pools_of c found kwargs))))
                    mod length (pools_of c found kwargs ! j))"
    by (simp add: itertools_product_eq product_lists_nth)
next
  assume "supplied kwargs = []"
  then show "itertools_product (pools_of c found kwargs) = [[]]"
    by (simp add: pools_of_def itertools_product_def)
qed


theorem find_data_series_combinations_witness:
  "search_all example_client default_cfg [(''item'', JStr ''Corn''), (''metric'', JStr ''Price'')]
     = Inr ([[[(''id'', JNum 274)], [(''id'', JNum 275)], [(''id'', JNum 276)]],
             [[(''id'', JNum 10)], [(''id'', JNum 20)]]],
            [''item_id'', ''metric_id''])
   \<and> itertools_product [[[(''id'', JNum 274)], [(''id'', JNum 275)], [(''id'', JNum 276)]],
                          [[(''id'', JNum 10)], [(''id'', JNum 20)]]]
     = [[[(''id'', JNum 274)], [(''id'', JNum 10)]], [[(''id'', JNum 274)], [(''id'', JNum 20)]],
        [[(''id'', JNum 275)], [(''id'', JNum 10)]], [[(''id'', JNum 275)], [(''id'', JNum 20)]],
        [[(''id'', JNum 276)], [(''id'', JNum 10)]], [[(''id'', JNum 276)], [(''id'', JNum 20)]]]
   \<and> length (itertools_product [[[(''id'', JNum 274)], [(''id'', JNum 275)], [(''id'', JNum 276)]],
                                  [[(''id'', JNum 10)], [(''id'', JNum 20)]]]) \<le> 9"
  using find_data_series_combinations
    [of "[(''item'', JStr ''Corn''), (''metric'', JStr ''Price'')]" example_client example_found
        default_cfg]
  by (simp add: supplied_def dimensions_def pools_of_def keys_of_def dict_get_def
        example_client_def example_search_def example_found_def default_cfg_def
        itertools_product_def product_step_def)


section \<open>Finding data series: a failing lookup\<close>

lemma sweep_fails:
  assumes "\<forall>b \<in> set before. \<exists>l. series_of_comb cl kwargs keys b = Inr l"
    and "series_of_comb cl kwargs keys comb = Inl e"
  shows "sweep cl kwargs keys (before @ comb # rest) all_data_series = Inl e"
  using assms by (induction before arbitrary: all_data_series) auto

text \<open>
  C1, as the claim states it, fails: the lookup for the second of three items raises, and
  \<open>find_data_series\<close> raises with it, where the tolerant resolver of the specification would
  yield the series of the first and the third item.
\<close>

theorem find_data_series_aborts_sweep:
  "find_data_series example_client default_cfg [(''item'', JStr ''Corn'')]
     = Inl (ExternalError ''timeout'')
   \<and> find_data_series_tolerant example_client default_cfg [(''item'', JStr ''Corn'')]
     = Inr [[(''item_id'', JNum 274), (''source_id'', JNum 2)],
            [(''item_id'', JNum 276), (''source_id'', JNum 2)]]"
  by (simp add: find_data_series_tolerant_def absorb_lookup_failure_def find_data_series_def
        search_all_def search_dimension_def example_client_def example_search_def
        default_cfg_def py_slice_to_def dict_get_def itertools_product_def product_step_def
        series_of_comb_def entities_of_def dict_item_def dict_of_pairs_def stamp_dates_def
        example_get_data_series_def)

text \<open>
  C1, amended. When the series lookup raises for a combination, the combinations before it
  having been resolved, \<open>find_data_series\<close> raises that exception: the sweep ends there and
  no series is yielded.
\<close>

theorem find_data_series_lookup_failure:
  assumes "search_all cl c kwargs = Inr (search_results, keys)"
    and "itertools_product search_results = before @ comb # rest"
    and "\<forall>b \<in> set before. \<exists>l. series_of_comb cl kwargs keys b = Inr l"
    and "entities_of keys comb = Inr entities"
    and "get_data_series cl entities = Inl e"
  shows "find_data_series cl c kwargs = Inl e"
proof -
  have "series_of_comb cl kwargs keys comb = Inl e"
    using assms(4,5) by (simp add: series_of_comb_def)
  with assms(3) have "sweep cl kwargs keys (before @ comb # rest) [] = Inl e"
    by (rule sweep_fails)
  then show ?thesis
    using assms(1,2) by (simp add: find_data_series_def)
qed

theorem find_data_series_lookup_failure_witness:
  "find_data_series example_client default_cfg [(''item'', JStr ''Corn'')]
     = Inl (ExternalError ''timeout'')"
  using find_data_series_lookup_failure
    [of example_client default_cfg "[(''item'', JStr ''Corn'')]"
        "[[[(''id'', JNum 274)], [(''id'', JNum 275)], [(''id'', JNum 276)]]]" "[''item_id'']"
        "[[[(''id'', JNum 274)]]]" "[[(''id'', JNum 275)]]" "[[[(''id'', JNum 276)]]]"
        "[(''item_id'', JNum 275)]" "ExternalError ''timeout''"]
  by (simp add: example_item_search itertools_product_def product_step_def
        series_of_comb_def entities_of_def dict_item_def dict_of_pairs_def
        example_client_fields example_get_data_series_def dict_get_def)


section \<open>Draining the queue\<close>

lemma load_series_frame:
  "load_series cl show_revisions self data_series =
     ebind (loaded_frame cl show_revisions (data_frame self) data_series)
       (\<lambda>df. Inr (self\<lparr>data_frame := df\<rparr>))"
  by (cases "get_data_points cl (with_revisions show_revisions data_series)")
     (simp_all add: load_series_def loaded_frame_def add_points_to_df_def)

lemma get_df_empty:
  "data_series_queue self = [] \<Longrightarrow> get_df cl show_revisions self = (Inr (data_frame self), self)"
  by (simp add: get_df.simps)

lemma get_df_pop:
  "get_df cl show_revisions \<lparr>data_series_queue = queue @ [data_series], data_frame = df0\<rparr> =
     (case loaded_frame cl show_revisions df0 data_series of
        Inl e \<Rightarrow> (Inl e, \<lparr>data_series_queue = queue, data_frame = df0\<rparr>)
      | Inr df \<Rightarrow> get_df cl show_revisions \<lparr>data_series_queue = queue, data_frame = df\<rparr>)"
  by (subst get_df.simps)
     (simp add: load_series_frame Let_def split: sum.splits)

lemma get_df_fails_after:
  assumes "load_all cl show_revisions df0 loaded = Inr df"
    and "get_data_points cl (with_revisions show_revisions failing) = Inl e"
  shows "get_df cl show_revisions
           \<lparr>data_series_queue = waiting @ failing # rev loaded, data_frame = df0\<rparr>
           = (Inl e, \<lparr>data_series_queue = waiting, data_frame = df\<rparr>)"
  using assms(1)
proof (induction loaded arbitrary: df0)
  case Nil
  have "loaded_frame cl show_revisions df0 failing = Inl e"
    using assms(2) by (simp add: loaded_frame_def)
  then show ?case
    using Nil by (simp add: get_df_pop)
next
  case (Cons data_series loaded)
  then obtain df1 where 1: "loaded_frame cl show_revisions df0 data_series = Inr df1"
    and 2: "load_all cl show_revisions df1 loaded = Inr df"
    by (cases "loaded_frame cl show_revisions df0 data_series") auto
  have "get_df cl show_revisions
          \<lparr>data_series_queue = (waiting @ failing # rev loaded) @ [data_series], data_frame = df0\<rparr>
        = get_df cl show_revisions
            \<lparr>data_series_queue = waiting @ failing # rev loaded, data_frame = df1\<rparr>"
    using 1 by (simp add: get_df_pop del: append_assoc)
  also have "\<dots> = (Inl e, \<lparr>data_series_queue = waiting, data_frame = df\<rparr>)"
    using 2 by (rule Cons.IH)
  finally show ?case by simp
qed

lemma example_prepare:
  "prepare_batch example_client example_good
     [[(''start_date'', JStr ''2017''), (''value'', JNum 100), (''item_id'', JNum 274)],
      [(''start_date'', JStr ''2018''), (''value'', JNum 200), (''item_id'', JNum 274)]]
   = Inr (Some example_table)"
  by (simp add: prepare_batch_def DataFrame_def append_new_def is_empty_def Let_def
        dict_item_def example_good_def set_column_def parse_dates_def dict_get_def
        example_client_fields example_to_datetime_def example_table_def)

lemma example_load:
  "load_all example_client False empty_frame [example_good] = Inr example_table"
proof -
  have "get_data_points example_client example_good =
          Inr [[(''start_date'', JStr ''2017''), (''value'', JNum 100), (''item_id'', JNum 274)],
               [(''start_date'', JStr ''2018''), (''value'', JNum 200), (''item_id'', JNum 274)]]"
    by (simp add: get_data_points_def example_client_fields example_fetch_def example_good_def
          dict_get_def dict_has_def)
  then show ?thesis
    by (simp add: loaded_frame_def with_revisions_def folded_frame_def example_prepare
          fold_batch_def is_empty_def empty_frame_def)
qed

text \<open>
  C9. The queue holds, from its end, series that load, then one whose fetch raises. Then
  \<open>get_df\<close> raises that exception to its caller, and the client is left with the series
  before the failing one still queued and with the accumulated table exactly as the loaded
  series made it: nothing folded in before the failure is lost.
\<close>

theorem get_df_fetch_failure:
  assumes "data_series_queue self = waiting @ failing # rev loaded"
    and "load_all cl show_revisions (data_frame self) loaded = Inr df"
    and "get_data_points cl (with_revisions show_revisions failing) = Inl e"
  shows "get_df cl show_revisions self = (Inl e, \<lparr>data_series_queue = waiting, data_frame = df\<rparr>)"
proof -
  have "self = \<lparr>data_series_queue = waiting @ failing # rev loaded, data_frame = data_frame self\<rparr>"
    using assms(1) by (cases self) simp
  then show ?thesis
    using get_df_fails_after [OF assms(2,3), of waiting] by simp
qed

theorem get_df_fetch_failure_witness:
  "get_df example_client False
     \<lparr>data_series_queue = [example_bad, example_good], data_frame = empty_frame\<rparr>
   = (Inl (ExternalError ''timeout''), \<lparr>data_series_queue = [], data_frame = example_table\<rparr>)"
proof -
  have queue: "data_series_queue
                 \<lparr>data_series_queue = [example_bad, example_good], data_frame = empty_frame\<rparr>
               = [] @ example_bad # rev [example_good]"
    by simp
  have loaded: "load_all example_client False
                  (data_frame \<lparr>data_series_queue = [example_bad, example_good],
                                data_frame = empty_frame\<rparr>) [example_good]
                = Inr example_table"
    using example_load by simp
  have failing: "get_data_points example_client (with_revisions False example_bad)
                 = Inl (ExternalError ''timeout'')"
    by (simp add: get_data_points_def with_revisions_def example_client_fields
          example_fetch_def example_bad_def dict_get_def)
  show ?thesis
    using get_df_fetch_failure [OF queue loaded failing] .
qed


section \<open>Tables built from a batch are well formed\<close>

lemma dict_get_row: "c \<in> set cols \<Longrightarrow> dict_get (map (\<lambda>c. (c, f c)) cols) c = f c"
  by (induction cols) (auto simp: dict_get_def)

lemma ebind_eq_Inr: "ebind m f = Inr y \<longleftrightarrow> (\<exists>x. m = Inr x \<and> f x = Inr y)"
  by (cases m) simp_all

lemma dict_get_member: "distinct (map fst r) \<Longrightarrow> (k, v) \<in> set r \<Longrightarrow> dict_get r k = v"
  by (simp add: dict_get_def)

lemma row_of_keys: "distinct (map fst r) \<Longrightarrow> map (\<lambda>c. (c, dict_get r c)) (map fst r) = r"
proof -
  assume d: "distinct (map fst r)"
  have "map (\<lambda>p. (fst p, dict_get r (fst p))) r = r"
  proof (rule map_idI)
    fix p assume "p \<in> set r"
    then have "dict_get r (fst p) = snd p"
      using d dict_get_member [of r "fst p" "snd p"] by simp
    then show "(fst p, dict_get r (fst p)) = p" by simp
  qed
  then show ?thesis by (simp add: comp_def)
qed

lemma wf_row: "wf_frame df \<Longrightarrow> r \<in> set (rows df) \<Longrightarrow> map (\<lambda>c. (c, dict_get r c)) (columns df) = r"
  using row_of_keys [of r] by (auto simp: wf_frame_def)

lemma distinct_append_new: "distinct cols \<Longrightarrow> distinct (append_new cols k)"
  by (simp add: append_new_def)

lemma distinct_foldl_append_new: "distinct acc \<Longrightarrow> distinct (foldl append_new acc ks)"
  by (induction ks arbitrary: acc) (simp_all add: distinct_append_new)

lemma wf_DataFrame: "wf_frame (DataFrame data)"
  by (simp add: wf_frame_def DataFrame_def Let_def distinct_foldl_append_new comp_def)

lemma dict_has_keys: "dict_has r k \<longleftrightarrow> k \<in> set (map fst r)"
  by (simp add: dict_has_def map_of_eq_None_iff)

lemma wf_set_column: "wf_frame df \<Longrightarrow> wf_frame (set_column col v df)"
  by (auto simp: wf_frame_def set_column_def keys_dict_set dict_has_keys append_new_def)

lemma emap_Inr: "emap f xs = Inr ys \<Longrightarrow> list_all2 (\<lambda>x y. f x = Inr y) xs ys"
proof (induction xs arbitrary: ys)
  case Nil
  then show ?case by simp
next
  case (Cons x xs)
  then show ?case
    by (cases "f x"; cases "emap f xs") auto
qed

lemma parse_dates_wf:
  assumes "wf_frame df" and "parse_dates cl col df = Inr df'"
  shows "wf_frame df' \<and> columns df' = columns df \<and> length (rows df') = length (rows df)"
proof (cases "col \<in> set (columns df)")
  case False
  then show ?thesis using assms by (simp add: parse_dates_def)
next
  case True
  let ?f = "\<lambda>r. ebind (to_datetime cl (dict_get r col)) (\<lambda>d. Inr (dict_set col d r))"
  from assms(2) True obtain rs where rs: "emap ?f (rows df) = Inr rs" and df': "df' = df\<lparr>rows := rs\<rparr>"
    by (auto simp: parse_dates_def ebind_eq_Inr)
  from rs have all2: "list_all2 (\<lambda>x y. ?f x = Inr y) (rows df) rs" by (rule emap_Inr)
  have "map fst y = columns df" if "y \<in> set rs" for y
  proof -
    from that obtain i where i: "i < length rs" and y: "y = rs ! i"
      by (auto simp: in_set_conv_nth)
    from all2 have len: "length (rows df) = length rs" by (rule list_all2_lengthD)
    define x where "x = rows df ! i"
    have x: "x \<in> set (rows df)" using i len by (simp add: x_def)
    have fx: "?f x = Inr y" using all2 i y by (simp add: x_def list_all2_conv_all_nth)
    from fx obtain d where "y = dict_set col d x"
      by (auto simp: ebind_eq_Inr)
    then show ?thesis
      using x True assms(1) by (auto simp: wf_frame_def keys_dict_set dict_has_keys)
  qed
  then show ?thesis
    using assms(1) df' all2 by (auto simp: wf_frame_def dest: list_all2_lengthD)
qed

lemma prepare_batch_wf:
  assumes "prepare_batch cl data_series data_points = Inr (Some tmp)"
  shows "wf_frame tmp \<and> \<not> is_empty tmp"
proof -
  let ?t0 = "DataFrame data_points"
  from assms have ne: "\<not> is_empty ?t0"
    by (auto simp: prepare_batch_def Let_def split: if_splits)
  with assms obtain sid t1 t2 where
    sid: "dict_item data_series ''source_id'' = Inr sid"
    and t1: "parse_dates cl ''end_date'' (set_column ''source_id'' sid ?t0) = Inr t1"
    and t2: "parse_dates cl ''start_date'' t1 = Inr t2"
    and t3: "parse_dates cl ''reporting_date'' t2 = Inr tmp"
    by (auto simp: prepare_batch_def Let_def ebind_eq_Inr)
  let ?s = "set_column ''source_id'' sid ?t0"
  have s: "wf_frame ?s" by (intro wf_set_column wf_DataFrame)
  have sne: "columns ?s \<noteq> [] \<and> length (rows ?s) = length (rows ?t0)"
    by (auto simp: set_column_def append_new_def)
  note p1 = parse_dates_wf [OF s t1]
  note p2 = parse_dates_wf [OF conjunct1 [OF p1] t2]
  note p3 = parse_dates_wf [OF conjunct1 [OF p2] t3]
  have "columns tmp \<noteq> []" using p1 p2 p3 sne by simp
  moreover have "rows tmp \<noteq> []"
    using p1 p2 p3 sne ne by (auto simp: is_empty_def)
  ultimately show ?thesis using p3 by (simp add: is_empty_def)
qed

section \<open>Merging a batch the table already holds\<close>

lemma at_most_one:
  assumes "distinct xs" and same: "\<And>x y. x \<in> set xs \<Longrightarrow> y \<in> set xs \<Longrightarrow> x = y"
  shows "xs = [] \<or> (\<exists>x. xs = [x])"
proof (cases xs)
  case Nil
  then show ?thesis by simp
next
  case (Cons x ys)
  have "ys = []"
  proof (rule ccontr)
    assume "ys \<noteq> []"
    then obtain y zs where ys: "ys = y # zs" by (cases ys) auto
    have "x = y" by (rule same) (simp_all add: Cons ys)
    then show False using assms(1) by (simp add: Cons ys)
  qed
  with Cons show ?thesis by simp
qed

lemma merge_absorbs:
  assumes wfT: "wf_frame T" and dT: "distinct (rows T)"
    and sub: "set (columns T) \<subseteq> set (columns M)" and ne: "columns T \<noteq> []"
    and norm: "\<forall>m \<in> set (rows M). map (\<lambda>c. (c, dict_get m c)) (columns M) = m"
    and cover: "\<forall>r \<in> set (rows T). \<exists>m \<in> set (rows M).
                  \<forall>c \<in> set (columns T). dict_get m c = dict_get r c"
  shows "merge_outer M T = Inr M"
proof -
  have on_set: "set (shared_columns M T) = set (columns T)"
    using sub by (auto simp: shared_columns_def)
  then have on_ne: "shared_columns M T \<noteq> []"
    using ne by (cases "columns T") auto
  have cols: "merged_columns M T = columns M"
    using sub by (auto simp: merged_columns_def filter_empty_conv)
  have key_eq: "join_key M T r1 = join_key M T r2
                  \<longleftrightarrow> (\<forall>c \<in> set (columns T). dict_get r1 c = dict_get r2 c)" for r1 r2
    using on_set by (simp add: join_key_def)
  have inj: "r1 = r2"
    if "r1 \<in> set (rows T)" "r2 \<in> set (rows T)" "join_key M T r1 = join_key M T r2" for r1 r2
  proof -
    have "map (\<lambda>c. (c, dict_get r1 c)) (columns T) = map (\<lambda>c. (c, dict_get r2 c)) (columns T)"
      using that(3) by (simp add: key_eq)
    then show ?thesis
      using wf_row [OF wfT that(1)] wf_row [OF wfT that(2)] by simp
  qed
  have one: "joined_rows M T l = [l]" if l: "l \<in> set (rows M)" for l
  proof -
    let ?partners = "filter (\<lambda>r. join_key M T r = join_key M T l) (rows T)"
    have row: "map (\<lambda>c. (c, dict_get l c)) (columns M) = l"
      using norm l by simp
    have "?partners = [] \<or> (\<exists>r. ?partners = [r])"
    proof (rule at_most_one)
      show "distinct ?partners" using dT by simp
    next
      fix x y assume "x \<in> set ?partners" "y \<in> set ?partners"
      then show "x = y" by (intro inj) simp_all
    qed
    then show ?thesis
    proof
      assume "?partners = []"
      then show ?thesis
        using row by (simp add: joined_rows_def cols cong: map_cong)
    next
      assume "\<exists>r. ?partners = [r]"
      then obtain r where "?partners = [r]" ..
      then show ?thesis
        using row by (simp add: joined_rows_def cols cong: map_cong)
    qed
  qed
  have joined: "concat (map (joined_rows M T) (rows M)) = rows M"
  proof -
    have eq: "map (joined_rows M T) (rows M) = map (\<lambda>l. [l]) (rows M)"
      by (rule map_cong [OF refl]) (rule one)
    show ?thesis unfolding eq by simp
  qed
  have unmatched: "unmatched_rows M T = []"
    using cover by (auto simp: unmatched_rows_def filter_empty_conv list_ex_iff key_eq)
  show ?thesis
    using on_ne by (simp add: merge_outer_def joined unmatched cols)
qed

lemma merge_covers:
  assumes "merge_outer L T = Inr M"
  shows "set (columns T) \<subseteq> set (columns M)"
    and "\<forall>m \<in> set (rows M). map (\<lambda>c. (c, dict_get m c)) (columns M) = m"
    and "\<forall>r \<in> set (rows T). \<exists>m \<in> set (rows M).
           \<forall>c \<in> set (columns T). dict_get m c = dict_get r c"
    and "columns T \<noteq> []"
proof -
  from assms have on_ne: "shared_columns L T \<noteq> []"
    and M: "M = \<lparr>columns = merged_columns L T,
                 rows = concat (map (joined_rows L T) (rows L)) @ unmatched_rows L T\<rparr>"
    by (auto simp: merge_outer_def split: if_splits)
  show "columns T \<noteq> []"
    using on_ne by (auto simp: shared_columns_def)
  show sub: "set (columns T) \<subseteq> set (columns M)"
    by (auto simp: M merged_columns_def)
  have form: "\<exists>f. m = map (\<lambda>c. (c, f c)) (columns M)" if "m \<in> set (rows M)" for m
  proof -
    from that have "(\<exists>l \<in> set (rows L). m \<in> set (joined_rows L T l)) \<or> m \<in> set (unmatched_rows L T)"
      by (auto simp: M)
    then show ?thesis
    proof
      assume "\<exists>l \<in> set (rows L). m \<in> set (joined_rows L T l)"
      then obtain l where m: "m \<in> set (joined_rows L T l)" by blast
      let ?partners = "filter (\<lambda>r. join_key L T r = join_key L T l) (rows T)"
      show ?thesis
      proof (cases "?partners = []")
        case True
        then have "m = map (\<lambda>c. (c, if c \<in> set (columns L) then dict_get l c else JNull))
                         (columns M)"
          using m by (simp add: joined_rows_def M)
        then show ?thesis
          by (rule exI [where x = "\<lambda>c. if c \<in> set (columns L) then dict_get l c else JNull"])
      next
        case False
        then obtain r where
          "m = map (\<lambda>c. (c, if c \<in> set (columns L) then dict_get l c else dict_get r c))
                 (columns M)"
          using m by (auto simp: joined_rows_def M Let_def)
        then show ?thesis
          by (rule exI [where x = "\<lambda>c. if c \<in> set (columns L) then dict_get l c
                                      else dict_get r c"])
      qed
    next
      assume "m \<in> set (unmatched_rows L T)"
      then obtain r where
        "m = map (\<lambda>c. (c, if c \<in> set (columns T) then dict_get r c else JNull)) (columns M)"
        by (auto simp: unmatched_rows_def M)
      then show ?thesis
        by (rule exI [where x = "\<lambda>c. if c \<in> set (columns T) then dict_get r c else JNull"])
    qed
  qed
  show "\<forall>m \<in> set (rows M). map (\<lambda>c. (c, dict_get m c)) (columns M) = m"
  proof
    fix m assume "m \<in> set (rows M)"
    then obtain f where m: "m = map (\<lambda>c. (c, f c)) (columns M)"
      using form by blast
    show "map (\<lambda>c. (c, dict_get m c)) (columns M) = m"
      unfolding m by (rule map_cong) (simp_all add: dict_get_row)
  qed
  show "\<forall>r \<in> set (rows T). \<exists>m \<in> set (rows M).
           \<forall>c \<in> set (columns T). dict_get m c = dict_get r c"
  proof
    fix r assume r: "r \<in> set (rows T)"
    show "\<exists>m \<in> set (rows M). \<forall>c \<in> set (columns T). dict_get m c = dict_get r c"
    proof (cases "list_ex (\<lambda>l. join_key L T l = join_key L T r) (rows L)")
      case True
      then obtain l where l: "l \<in> set (rows L)" and k: "join_key L T l = join_key L T r"
        by (auto simp: list_ex_iff)
      let ?m = "map (\<lambda>c. (c, if c \<in> set (columns L) then dict_get l c else dict_get r c))
                  (merged_columns L T)"
      let ?partners = "filter (\<lambda>r. join_key L T r = join_key L T l) (rows T)"
      have mem: "r \<in> set ?partners"
        using r k by simp
      then have "?partners \<noteq> []" by (cases ?partners) simp_all
      then have "joined_rows L T l =
                   map (\<lambda>r. map (\<lambda>c. (c, if c \<in> set (columns L) then dict_get l c
                                           else dict_get r c)) (merged_columns L T)) ?partners"
        by (simp add: joined_rows_def)
      then have "?m \<in> set (joined_rows L T l)"
        using mem by (simp only: set_map) (rule imageI)
      then have "?m \<in> set (rows M)" using l by (auto simp: M)
      moreover have "dict_get ?m c = dict_get r c" if c: "c \<in> set (columns T)" for c
      proof -
        have "c \<in> set (merged_columns L T)" using c sub by (auto simp: M)
        then have "dict_get ?m c = (if c \<in> set (columns L) then dict_get l c else dict_get r c)"
          by (rule dict_get_row)
        moreover have "dict_get l c = dict_get r c" if "c \<in> set (columns L)"
          using k c that by (auto simp: join_key_def shared_columns_def)
        ultimately show ?thesis by simp
      qed
      ultimately show ?thesis by blast
    next
      case False
      let ?m = "map (\<lambda>c. (c, if c \<in> set (columns T) then dict_get r c else JNull))
                  (merged_columns L T)"
      have "?m \<in> set (unmatched_rows L T)"
        using r False by (auto simp: unmatched_rows_def)
      then have "?m \<in> set (rows M)" by (simp add: M)
      moreover have "dict_get ?m c = dict_get r c" if c: "c \<in> set (columns T)" for c
      proof -
        have "c \<in> set (merged_columns L T)" using c sub by (auto simp: M)
        then have "dict_get ?m c = (if c \<in> set (columns T) then dict_get r c else JNull)"
          by (rule dict_get_row)
        then show ?thesis using c by simp
      qed
      ultimately show ?thesis by blast
    qed
  qed
qed

lemma fold_batch_twice:
  assumes wfT: "wf_frame tmp" and ne: "\<not> is_empty tmp" and dT: "distinct (rows tmp)"
    and once: "fold_batch df tmp = Inr df1"
  shows "fold_batch df1 tmp = Inr df1"
proof (cases "is_empty df")
  case True
  then have df1: "df1 = tmp" using once by (simp add: fold_batch_def)
  have "merge_outer tmp tmp = Inr tmp"
  proof (rule merge_absorbs [OF wfT dT])
    show "set (columns tmp) \<subseteq> set (columns tmp)" by simp
    show "columns tmp \<noteq> []" using ne by (simp add: is_empty_def)
    show "\<forall>m \<in> set (rows tmp). map (\<lambda>c. (c, dict_get m c)) (columns tmp) = m"
      using wf_row [OF wfT] by simp
    show "\<forall>r \<in> set (rows tmp). \<exists>m \<in> set (rows tmp).
            \<forall>c \<in> set (columns tmp). dict_get m c = dict_get r c"
      by blast
  qed
  then show ?thesis using ne by (simp add: df1 fold_batch_def)
next
  case False
  then have m: "merge_outer df tmp = Inr df1" using once by (simp add: fold_batch_def)
  note c = merge_covers [OF m]
  have "merge_outer df1 tmp = Inr df1"
    using wfT dT c(1) c(4) c(2) c(3) by (rule merge_absorbs)
  moreover have "\<not> is_empty df1"
  proof -
    from ne obtain r where "r \<in> set (rows tmp)" by (cases "rows tmp") (auto simp: is_empty_def)
    with c(3) have "rows df1 \<noteq> []" by auto
    moreover have "columns df1 \<noteq> []" using c(1) c(4) by (cases "columns tmp") auto
    ultimately show ?thesis by (simp add: is_empty_def)
  qed
  ultimately show ?thesis by (simp add: fold_batch_def)
qed

lemma folded_frame_twice:
  assumes "batch_rows_distinct cl data_series data_points"
    and "folded_frame cl df data_series data_points = Inr df1"
  shows "folded_frame cl df1 data_series data_points = Inr df1"
proof (cases "prepare_batch cl data_series data_points")
  case (Inl e)
  then show ?thesis using assms(2) by (simp add: folded_frame_def)
next
  case (Inr prepared)
  show ?thesis
  proof (cases prepared)
    case None
    then show ?thesis using Inr assms(2) by (simp add: folded_frame_def)
  next
    case (Some tmp)
    have p: "prepare_batch cl data_series data_points = Inr (Some tmp)"
      using Inr Some by simp
    then have "distinct (rows tmp)" using assms(1) by (simp add: batch_rows_distinct_def)
    moreover have "fold_batch df tmp = Inr df1" using p assms(2) by (simp add: folded_frame_def)
    moreover note prepare_batch_wf [OF p]
    ultimately have "fold_batch df1 tmp = Inr df1"
      by (intro fold_batch_twice [where df = df]) simp_all
    then show ?thesis using p by (simp add: folded_frame_def)
  qed
qed

lemma example_prepare_points:
  "prepare_batch example_client example_good example_points = Inr (Some example_table)"
  using example_prepare by (simp add: example_points_def)

lemma example_once:
  "add_points_to_df example_client \<lparr>data_series_queue = [], data_frame = empty_frame\<rparr>
     example_good example_points
   = Inr \<lparr>data_series_queue = [], data_frame = example_table\<rparr>"
  by (simp add: add_points_to_df_def folded_frame_def example_prepare_points fold_batch_def
        is_empty_def empty_frame_def)

lemma example_prepare_repeated:
  "prepare_batch example_client example_good example_repeated
   = Inr (Some \<lparr>columns = [''start_date'', ''value'', ''item_id'', ''source_id''],
                 rows = [example_row, example_row]\<rparr>)"
  by (simp add: prepare_batch_def DataFrame_def append_new_def is_empty_def Let_def
        dict_item_def example_good_def set_column_def parse_dates_def dict_get_def
        example_client_fields example_to_datetime_def example_repeated_def example_row_def)

text \<open>
  C5, as the claim states it, fails: a batch that holds the same observation twice gives
  two rows when folded into the empty table and four when folded in again, since the
  outer join pairs every row with every partner.
\<close>

theorem add_points_to_df_repeated_rows:
  "add_points_to_df example_client \<lparr>data_series_queue = [], data_frame = empty_frame\<rparr>
     example_good example_repeated
   = Inr \<lparr>data_series_queue = [],
          data_frame = \<lparr>columns = [''start_date'', ''value'', ''item_id'', ''source_id''],
                        rows = [example_row, example_row]\<rparr>\<rparr>
   \<and> add_points_to_df example_client
       \<lparr>data_series_queue = [],
        data_frame = \<lparr>columns = [''start_date'', ''value'', ''item_id'', ''source_id''],
                      rows = [example_row, example_row]\<rparr>\<rparr>
       example_good example_repeated
   = Inr \<lparr>data_series_queue = [],
          data_frame = \<lparr>columns = [''start_date'', ''value'', ''item_id'', ''source_id''],
                        rows = [example_row, example_row, example_row, example_row]\<rparr>\<rparr>
   \<and> rows_with_key \<lparr>columns = [''start_date'', ''value'', ''item_id'', ''source_id''],
                     rows = [example_row, example_row]\<rparr>
        [JNum 274, JNum 2, JStr ''2017''] = 2
   \<and> rows_with_key \<lparr>columns = [''start_date'', ''value'', ''item_id'', ''source_id''],
                     rows = [example_row, example_row, example_row, example_row]\<rparr>
        [JNum 274, JNum 2, JStr ''2017''] = 4"
proof (intro conjI)
  show "add_points_to_df example_client \<lparr>data_series_queue = [], data_frame = empty_frame\<rparr>
     example_good example_repeated
   = Inr \<lparr>data_series_queue = [],
          data_frame = \<lparr>columns = [''start_date'', ''value'', ''item_id'', ''source_id''],
                        rows = [example_row, example_row]\<rparr>\<rparr>"
    by (simp add: add_points_to_df_def folded_frame_def example_prepare_repeated fold_batch_def
        is_empty_def empty_frame_def)
  show "add_points_to_df example_client
       \<lparr>data_series_queue = [],
        data_frame = \<lparr>columns = [''start_date'', ''value'', ''item_id'', ''source_id''],
                      rows = [example_row, example_row]\<rparr>\<rparr>
       example_good example_repeated
   = Inr \<lparr>data_series_queue = [],
          data_frame = \<lparr>columns = [''start_date'', ''value'', ''item_id'', ''source_id''],
                        rows = [example_row, example_row, example_row, example_row]\<rparr>\<rparr>"
    by (simp add: add_points_to_df_def folded_frame_def example_prepare_repeated fold_batch_def
        is_empty_def merge_outer_def shared_columns_def merged_columns_def joined_rows_def
        unmatched_rows_def join_key_def example_row_def dict_get_def)
  show "rows_with_key \<lparr>columns = [''start_date'', ''value'', ''item_id'', ''source_id''],
                     rows = [example_row, example_row]\<rparr>
        [JNum 274, JNum 2, JStr ''2017''] = 2"
    by (simp add: rows_with_key_def identifying_key_def DATA_POINTS_UNIQUE_COLS_def
          example_row_def dict_get_def)
  show "rows_with_key \<lparr>columns = [''start_date'', ''value'', ''item_id'', ''source_id''],
                     rows = [example_row, example_row, example_row, example_row]\<rparr>
        [JNum 274, JNum 2, JStr ''2017''] = 4"
    by (simp add: rows_with_key_def identifying_key_def DATA_POINTS_UNIQUE_COLS_def
          example_row_def dict_get_def)
qed

text \<open>
  C5, amended. When the rows of the prepared batch are pairwise distinct, folding the batch
  into the table a second time succeeds and leaves the columns and the rows of the table
  as they were after the first fold (up to the order of the rows), so the number of rows
  with any given identifying key is unchanged.
\<close>

theorem add_points_to_df_twice:
  assumes "batch_rows_distinct cl data_series data_points"
    and "add_points_to_df cl self data_series data_points = Inr once"
  shows "\<exists>twice. add_points_to_df cl once data_series data_points = Inr twice
           \<and> columns (data_frame twice) = columns (data_frame once)
           \<and> mset (rows (data_frame twice)) = mset (rows (data_frame once))
           \<and> (\<forall>k. rows_with_key (data_frame twice) k = rows_with_key (data_frame once) k)"
proof -
  from assms(2) obtain df1 where
    1: "folded_frame cl (data_frame self) data_series data_points = Inr df1"
    and once: "once = self\<lparr>data_frame := df1\<rparr>"
    by (auto simp: add_points_to_df_def ebind_eq_Inr)
  have "folded_frame cl df1 data_series data_points = Inr df1"
    using assms(1) 1 by (rule folded_frame_twice)
  then have "add_points_to_df cl once data_series data_points = Inr once"
    by (simp add: add_points_to_df_def once)
  then show ?thesis by simp
qed

theorem add_points_to_df_twice_witness:
  "\<exists>twice. add_points_to_df example_client \<lparr>data_series_queue = [], data_frame = example_table\<rparr>
              example_good example_points = Inr twice
           \<and> columns (data_frame twice) = columns example_table
           \<and> mset (rows (data_frame twice)) = mset (rows example_table)"
proof -
  have d: "batch_rows_distinct example_client example_good example_points"
    by (simp add: batch_rows_distinct_def example_prepare_points example_table_def)
  show ?thesis
    using add_points_to_df_twice [OF d example_once] by auto
qed


end
